theory Spec2Isabelle
  imports Main "HOL-Library.Multiset"
begin

section \<open>Values shared by the modules\<close>

text \<open>
  A JavaScript value that the code treats as "a string, or nothing": settings, the fields
  of a snapshot and the fields of a stored object. \<open>Undefined\<close> is a missing property,
  \<open>Null\<close> is \<open>null\<close>. The code tests such values with \<open>if (v)\<close>, \<open>v && w\<close>,
  \<open>v || ''\<close> and \<open>v !== undefined\<close>.
\<close>

datatype jsstr = Undefined | Null | Str string

fun truthy :: "jsstr \<Rightarrow> bool" where
  "truthy (Str s) = (s \<noteq> [])"
| "truthy _ = False"

text \<open>\<open>v || ''\<close> for a string-or-nothing value.\<close>

fun or_empty :: "jsstr \<Rightarrow> string" where
  "or_empty (Str s) = s"
| "or_empty _ = []"

text \<open>
  The values \<open>JSON.parse\<close> hands back to \<open>CryptoUtils.decrypt\<close>.
  \<open>PasswordData a b c d e\<close> is the object
  \<open>{service: a, email: b, username: c, password: d, memo: e}\<close> of five strings, the only
  shape the application serialises; \<open>JObject\<close> is any other object, as the list of its
  own properties (their names distinct).
\<close>

datatype json =
    JNull
  | JBool bool
  | JNumber int
  | JString string
  | JArray "json list"
  | JObject "(string \<times> json) list"
  | PasswordData string string string string string

text \<open>
  The own property \<open>name\<close> of a parsed value, as the spread \<open>{...decrypted}\<close> copies
  it. The index properties that a spread copies from a string or an array are left out:
  the code reads only named properties.
\<close>

fun own_property :: "json \<Rightarrow> string \<Rightarrow> json option" where
  "own_property (PasswordData a b c d e) name =
     map_of [(''service'', JString a), (''email'', JString b), (''username'', JString c),
             (''password'', JString d), (''memo'', JString e)] name"
| "own_property (JObject props) name = map_of props name"
| "own_property v name = None"

text \<open>Every exception the modelled code can raise.\<close>

datatype error =
    DecryptionFailure
  | UnsupportedVersion
  | NotLoggedIn
  | NotConfigured
  | SyncFailure "string option"
  | ConstraintError
  | SyntaxError
  | TypeError
  | NetworkError

text \<open>
  An object of the \<open>passwords\<close> object store, or of the \<open>passwords\<close> array of a
  snapshot, without its \<open>id\<close>: the properties the code reads. \<open>encrypt\<close> returns such an
  object with \<open>ciphertext\<close> and \<open>iv\<close> only.
\<close>

record stored_object =
  ciphertext :: jsstr
  iv :: jsstr
  service :: jsstr
  email :: jsstr
  username :: jsstr
  password :: jsstr
  memo :: jsstr

text \<open>
  An element of a snapshot's \<open>passwords\<close> array: its \<open>id\<close> property, when it has one, and
  its other properties.
\<close>

type_synonym entry = "int option \<times> stored_object"

text \<open>
  The parsed snapshot file (the variable \<open>data\<close>). \<open>data_version\<close> is \<open>None\<close> when
  \<open>version\<close> is missing or not a number, \<open>data_passwords\<close> is \<open>None\<close> when
  \<open>passwords\<close> is not an array. \<open>exportDate\<close> is never read.
\<close>

record snapshot =
  data_version :: "int option"
  data_masterHash :: jsstr
  data_masterSalt :: jsstr
  data_encryptionSalt :: jsstr
  data_passwords :: "entry list option"

section \<open>The CryptoJS library\<close>

text \<open>
  \<open>CryptoUtils\<close> calls the CryptoJS library and the built-in \<open>JSON\<close> object, neither of
  which is part of the repository. They are a parameter of the model: a record of the
  functions the code calls, over an arbitrary type \<open>'w\<close> of \<open>WordArray\<close>s.
  \<open>AES_encrypt m k v\<close> is \<open>CryptoJS.AES.encrypt(m, k, {iv: v, mode: CBC, padding: Pkcs7}).ciphertext\<close>,
  \<open>AES_decrypt c k v\<close> the \<open>WordArray\<close> returned by \<open>CryptoJS.AES.decrypt\<close> with the same
  options, \<open>Utf8_stringify\<close> is \<open>toString(CryptoJS.enc.Utf8)\<close> (\<open>None\<close> when it throws
  "Malformed UTF-8 data"), \<open>PBKDF2 p s\<close> is the call with \<open>keySize: 256/32\<close>,
  \<open>iterations: 100000\<close> and SHA-256. \<open>JSON_parse\<close> is \<open>JSON.parse\<close> on a decrypted
  text and \<open>JSON_parse_snapshot\<close> is \<open>JSON.parse\<close> on a snapshot file; both are \<open>None\<close>
  when \<open>JSON.parse\<close> throws.
\<close>

record 'w CryptoJS =
  PBKDF2 :: "string \<Rightarrow> 'w \<Rightarrow> 'w"
  AES_encrypt :: "string \<Rightarrow> 'w \<Rightarrow> 'w \<Rightarrow> 'w"
  AES_decrypt :: "'w \<Rightarrow> 'w \<Rightarrow> 'w \<Rightarrow> 'w"
  Utf8_stringify :: "'w \<Rightarrow> string option"
  Base64_stringify :: "'w \<Rightarrow> string"
  Base64_parse :: "string \<Rightarrow> 'w"
  JSON_stringify :: "json \<Rightarrow> string"
  JSON_parse :: "string \<Rightarrow> json option"
  JSON_parse_snapshot :: "string \<Rightarrow> snapshot option"

text \<open>
  What the code relies on from the library: decryption undoes encryption under the same
  key and initialisation vector, Base64 decoding undoes Base64 encoding, and a password
  record survives \<open>JSON.stringify\<close> followed by \<open>JSON.parse\<close>.
\<close>

definition library_contract :: "'w CryptoJS \<Rightarrow> bool" where
  "library_contract L \<longleftrightarrow>
     (\<forall>m k v. Utf8_stringify L (AES_decrypt L (AES_encrypt L m k v) k v) = Some m) \<and>
     (\<forall>w. Base64_parse L (Base64_stringify L w) = w) \<and>
     (\<forall>a b c d e. JSON_parse L (JSON_stringify L (PasswordData a b c d e))
                    = Some (PasswordData a b c d e))"

section \<open>CryptoUtils\<close>

text \<open>The object \<open>{hash, salt}\<close> returned by \<open>hashMasterPassword\<close>.\<close>

record hashed =
  hash :: string
  salt :: string

definition wordArrayToBase64 :: "'w CryptoJS \<Rightarrow> 'w \<Rightarrow> string" where
  "wordArrayToBase64 L wordArray = Base64_stringify L wordArray"

definition base64ToWordArray :: "'w CryptoJS \<Rightarrow> string \<Rightarrow> 'w" where
  "base64ToWordArray L base64 = Base64_parse L base64"

text \<open>
  \<open>hashMasterPassword(password)\<close>. The sixteen random salt bytes are drawn inside the
  function; the model takes their Base64 text \<open>saltBase64\<close> as an argument.
\<close>

definition hashMasterPassword :: "'w CryptoJS \<Rightarrow> string \<Rightarrow> string \<Rightarrow> hashed" where
  "hashMasterPassword L pw saltBase64 =
     (let s = base64ToWordArray L saltBase64;
          h = PBKDF2 L pw s
      in \<lparr>hash = wordArrayToBase64 L h, salt = saltBase64\<rparr>)"

definition verifyMasterPassword :: "'w CryptoJS \<Rightarrow> string \<Rightarrow> string \<Rightarrow> string \<Rightarrow> bool" where
  "verifyMasterPassword L pw storedHash storedSalt =
     (let s = base64ToWordArray L storedSalt;
          h = PBKDF2 L pw s;
          computedHash = wordArrayToBase64 L h
      in computedHash = storedHash)"

definition deriveKey :: "'w CryptoJS \<Rightarrow> string \<Rightarrow> string \<Rightarrow> 'w" where
  "deriveKey L pw saltBase64 = PBKDF2 L pw (base64ToWordArray L saltBase64)"

text \<open>
  \<open>encrypt(data, key)\<close>. The fresh initialisation vector \<open>WordArray.random(16)\<close> is the
  argument \<open>v\<close>. The result carries \<open>ciphertext\<close> and \<open>iv\<close> and no other property.
\<close>

definition no_fields :: stored_object where
  "no_fields = \<lparr>ciphertext = Undefined, iv = Undefined, service = Undefined,
     email = Undefined, username = Undefined, password = Undefined, memo = Undefined\<rparr>"

definition encrypt :: "'w CryptoJS \<Rightarrow> json \<Rightarrow> 'w \<Rightarrow> 'w \<Rightarrow> stored_object" where
  "encrypt L data key v =
     (let dataString = JSON_stringify L data;
          encrypted = AES_encrypt L dataString key v
      in no_fields\<lparr>ciphertext := Str (Base64_stringify L encrypted),
                    iv := Str (Base64_stringify L v)\<rparr>)"

text \<open>
  \<open>decrypt(ciphertext, iv, key)\<close>. Every exception raised inside is one failure value:
  \<open>Base64.parse\<close> of a value that is not a string and \<open>AES.decrypt\<close> with a \<open>null\<close> key
  raise a type error, \<open>toString(Utf8)\<close> raises on malformed UTF-8, \<open>JSON.parse\<close> raises on
  text that is not JSON. The caller catches all of them alike. Whatever \<open>JSON.parse\<close>
  returns is returned unchecked.
\<close>

fun decrypt :: "'w CryptoJS \<Rightarrow> jsstr \<Rightarrow> jsstr \<Rightarrow> 'w option \<Rightarrow> error + json" where
  "decrypt L (Str c) (Str v) (Some key) =
     (case Utf8_stringify L (AES_decrypt L (base64ToWordArray L c) key (base64ToWordArray L v)) of
        None \<Rightarrow> Inl DecryptionFailure
      | Some text \<Rightarrow>
          (case JSON_parse L text of
             None \<Rightarrow> Inl DecryptionFailure
           | Some data \<Rightarrow> Inr data))"
| "decrypt L _ _ _ = Inl DecryptionFailure"

section \<open>Storage\<close>

text \<open>
  The two IndexedDB object stores. IndexedDB is the browser's, not the repository's; the
  model follows its published behaviour for the calls the code makes.
  \<^item> \<open>passwords\<close> has \<open>keyPath: 'id'\<close> and \<open>autoIncrement: true\<close>: every object is
    stored under its \<open>id\<close>, \<open>pw_rows\<close> lists the objects by ascending key as \<open>getAll\<close>
    returns them, each as its key and its other properties, and \<open>pw_keygen\<close> is the key
    generator's current number (1 in a new database).
  \<^item> \<open>settings\<close> has \<open>keyPath: 'key'\<close>: a map from the key to the stored \<open>value\<close>.
  Keys are integers; the 2^53 limit of the key generator is not modelled.
\<close>

record storage =
  pw_rows :: "(int \<times> stored_object) list"
  pw_keygen :: int
  settings :: "string \<Rightarrow> jsstr option"

definition saveSetting :: "string \<Rightarrow> jsstr \<Rightarrow> storage \<Rightarrow> storage" where
  "saveSetting key val s = s\<lparr>settings := (settings s)(key \<mapsto> val)\<rparr>"

text \<open>\<open>request.result?.value\<close>: \<open>undefined\<close> when no object has the key.\<close>

definition getSetting :: "string \<Rightarrow> storage \<Rightarrow> jsstr" where
  "getSetting key s = (case settings s key of None \<Rightarrow> Undefined | Some val \<Rightarrow> val)"

text \<open>
  \<open>addPassword\<close> calls \<open>store.add\<close>: the key is the object's \<open>id\<close> when it has one and the
  key generator's number otherwise; \<open>add\<close> fails with a \<open>ConstraintError\<close> when the store
  already holds the key, and the failed request leaves the store as it was. A stored key at
  or above the generator's number moves the generator past it. The promise resolves to
  the key.
\<close>

definition addPassword :: "entry \<Rightarrow> storage \<Rightarrow> error + (int \<times> storage)" where
  "addPassword encryptedData s =
     (let k = (case fst encryptedData of Some i \<Rightarrow> i | None \<Rightarrow> pw_keygen s)
      in if k \<in> set (map fst (pw_rows s)) then Inl ConstraintError
         else Inr (k, s\<lparr>pw_rows := insort_key fst (k, snd encryptedData) (pw_rows s),
                         pw_keygen := (if pw_keygen s \<le> k then k + 1 else pw_keygen s)\<rparr>))"

definition deletePassword :: "int \<Rightarrow> storage \<Rightarrow> storage" where
  "deletePassword i s = s\<lparr>pw_rows := filter (\<lambda>row. fst row \<noteq> i) (pw_rows s)\<rparr>"

definition getAllPasswords :: "storage \<Rightarrow> (int \<times> stored_object) list" where
  "getAllPasswords s = pw_rows s"

text \<open>\<open>clearAll\<close> empties both stores in one transaction. \<open>clear\<close> does not reset the key
  generator.\<close>

definition clearAll :: "storage \<Rightarrow> storage" where
  "clearAll s = s\<lparr>pw_rows := [], settings := Map.empty\<rparr>"

text \<open>
  The loop \<open>for (const pw of data.passwords) await Storage.addPassword(pw)\<close> of
  \<open>Storage.importData\<close> and \<open>App.handleSyncPull\<close>: the first rejected \<open>add\<close> throws out of
  the loop, and what was added before stays.
\<close>

fun addPasswords :: "entry list \<Rightarrow> storage \<Rightarrow> storage \<times> (error + unit)" where
  "addPasswords [] s = (s, Inr ())"
| "addPasswords (pw # rest) s =
     (case addPassword pw s of
        Inl e \<Rightarrow> (s, Inl e)
      | Inr (k, s') \<Rightarrow> addPasswords rest s')"

text \<open>The three \<open>if (data.x) await saveSetting('x', data.x)\<close> lines.\<close>

definition restoreSetting :: "string \<Rightarrow> jsstr \<Rightarrow> storage \<Rightarrow> storage" where
  "restoreSetting key val s = (if truthy val then saveSetting key val s else s)"

definition restoreSettings :: "snapshot \<Rightarrow> storage \<Rightarrow> storage" where
  "restoreSettings data s =
     restoreSetting ''encryptionSalt'' (data_encryptionSalt data)
       (restoreSetting ''masterSalt'' (data_masterSalt data)
          (restoreSetting ''masterHash'' (data_masterHash data) s))"

text \<open>\<open>Storage.importData(jsonString)\<close>: the new store, and the count or the exception.\<close>

definition Storage_importData ::
  "'w CryptoJS \<Rightarrow> string \<Rightarrow> storage \<Rightarrow> storage \<times> (error + nat)" where
  "Storage_importData L jsonString s =
     (case JSON_parse_snapshot L jsonString of
        None \<Rightarrow> (s, Inl SyntaxError)
      | Some data \<Rightarrow>
          if data_version data \<noteq> Some 1 then (s, Inl UnsupportedVersion)
          else
            (let s1 = restoreSettings data s
             in case data_passwords data of
                  None \<Rightarrow> (s1, Inl TypeError)
                | Some pws \<Rightarrow>
                    (case addPasswords pws s1 of
                       (s2, Inl e) \<Rightarrow> (s2, Inl e)
                     | (s2, Inr u) \<Rightarrow> (s2, Inr (length pws)))))"

section \<open>App: session state, loading and import\<close>

text \<open>
  The messages \<open>showToast\<close> displays, by the line that shows them; a toast for a caught
  exception carries the exception.
\<close>

datatype toast =
    Toast_corrupt_deleted nat
  | Toast_load_failed
  | Toast_imported nat
  | Toast_error error
  | Toast_pulling
  | Toast_no_remote_data
  | Toast_synced nat

text \<open>
  The state of \<open>App\<close> that the modelled functions read or write. An element
  \<open>{id: ep.id, ...decrypted}\<close> of \<open>passwords\<close> is held as the pair of \<open>ep.id\<close> and
  \<open>decrypted\<close>, which determine it; \<open>element_property\<close> reads its properties.
  \<open>toasts\<close> is every message shown so far. The screens are not modelled.
\<close>

record 'w app =
  encryptionKey :: "'w option"
  encryptionSalt :: jsstr
  passwords :: "(int \<times> json) list"
  toasts :: "toast list"

definition showToast :: "toast \<Rightarrow> 'w app \<Rightarrow> 'w app" where
  "showToast m a = a\<lparr>toasts := toasts a @ [m]\<rparr>"

text \<open>
  A property of the element \<open>{id: ep.id, ...decrypted}\<close>: the spread comes second, so an
  \<open>id\<close> of the decrypted value replaces \<open>ep.id\<close>.
\<close>

definition element_property :: "int \<times> json \<Rightarrow> string \<Rightarrow> json option" where
  "element_property p name =
     (case own_property (snd p) name of
        Some v \<Rightarrow> Some v
      | None \<Rightarrow> (if name = ''id'' then Some (JNumber (fst p)) else None))"

text \<open>
  \<open>renderPasswordList()\<close>, called without a filter. The page it writes is not modelled,
  only whether it raises: for every element \<open>p\<close> it evaluates \<open>p.service.charAt(0)\<close>,
  which raises a type error unless \<open>p.service\<close> is a string. Nothing else in it raises
  (an empty list returns before the elements are read).
\<close>

definition service_is_string :: "int \<times> json \<Rightarrow> bool" where
  "service_is_string p \<longleftrightarrow>
     (case element_property p ''service'' of Some (JString sv) \<Rightarrow> True | _ \<Rightarrow> False)"

definition renderPasswordList :: "'w app \<Rightarrow> error + unit" where
  "renderPasswordList a =
     (if list_all service_is_string (passwords a) then Inr () else Inl TypeError)"

text \<open>
  The first loop of \<open>loadPasswords\<close>: each object is decrypted inside its own
  \<open>try\<close>; a value goes to \<open>this.passwords\<close>, an exception puts the id on \<open>invalidIds\<close>.
\<close>

fun decryptEach ::
  "'w CryptoJS \<Rightarrow> 'w option \<Rightarrow> (int \<times> stored_object) list \<Rightarrow> (int \<times> json) list \<Rightarrow> int list
     \<Rightarrow> (int \<times> json) list \<times> int list" where
  "decryptEach L key [] pws invalidIds = (pws, invalidIds)"
| "decryptEach L key (ep # rest) pws invalidIds =
     (case decrypt L (ciphertext (snd ep)) (iv (snd ep)) key of
        Inr decrypted \<Rightarrow> decryptEach L key rest (pws @ [(fst ep, decrypted)]) invalidIds
      | Inl e \<Rightarrow> decryptEach L key rest pws (invalidIds @ [fst ep]))"

text \<open>The second loop: \<open>for (const id of invalidIds) await Storage.deletePassword(id)\<close>.\<close>

fun deleteEach :: "int list \<Rightarrow> storage \<Rightarrow> storage" where
  "deleteEach [] s = s"
| "deleteEach (i # rest) s = deleteEach rest (deletePassword i s)"

text \<open>
  \<open>loadPasswords()\<close>. The whole body is inside the outer \<open>try\<close>, whose \<open>catch\<close> shows
  the "load failed" toast. No modelled storage call fails, so the only exception that
  reaches it is the one of \<open>renderPasswordList\<close>, the last call of the body: by then
  \<open>this.passwords\<close> is set, the objects that did not decrypt are deleted and their count
  is shown.
\<close>

definition loadPasswords :: "'w CryptoJS \<Rightarrow> 'w app \<Rightarrow> storage \<Rightarrow> 'w app \<times> storage" where
  "loadPasswords L a s =
     (let encryptedPasswords = getAllPasswords s;
          (pws, invalidIds) = decryptEach L (encryptionKey a) encryptedPasswords [] [];
          a1 = a\<lparr>passwords := pws\<rparr>;
          (a2, s2) =
            (if length invalidIds > 0
             then (showToast (Toast_corrupt_deleted (length invalidIds)) a1,
                   deleteEach invalidIds s)
             else (a1, s))
      in case renderPasswordList a2 of
           Inr u \<Rightarrow> (a2, s2)
         | Inl e \<Rightarrow> (showToast Toast_load_failed a2, s2))"

text \<open>The object \<open>passwordData\<close> built from a plaintext entry.\<close>

definition passwordData :: "stored_object \<Rightarrow> json" where
  "passwordData pw =
     PasswordData (or_empty (service pw)) (or_empty (email pw)) (or_empty (username pw))
       (or_empty (password pw)) (or_empty (memo pw))"

text \<open>
  The loop of \<open>App.importData\<close>. \<open>rnd\<close> is the sequence of initialisation vectors that
  \<open>encrypt\<close> draws, \<open>n\<close> the number drawn so far, \<open>cnt\<close> the loop's \<open>count\<close>. An entry with
  neither \<open>ciphertext\<close> and \<open>iv\<close> nor \<open>service\<close> is counted and not stored. A rejected \<open>add\<close>
  throws out of the loop.
\<close>

fun importEach ::
  "'w CryptoJS \<Rightarrow> 'w \<Rightarrow> (nat \<Rightarrow> 'w) \<Rightarrow> nat \<Rightarrow> entry list \<Rightarrow> storage \<Rightarrow> nat
     \<Rightarrow> storage \<times> (error + nat)" where
  "importEach L key rnd n [] s cnt = (s, Inr cnt)"
| "importEach L key rnd n (pw # rest) s cnt =
     (if truthy (ciphertext (snd pw)) \<and> truthy (iv (snd pw)) then
        (case addPassword pw s of
           Inl e \<Rightarrow> (s, Inl e)
         | Inr (k, s') \<Rightarrow> importEach L key rnd n rest s' (cnt + 1))
      else if service (snd pw) \<noteq> Undefined then
        (case addPassword (None, encrypt L (passwordData (snd pw)) key (rnd n)) s of
           Inl e \<Rightarrow> (s, Inl e)
         | Inr (k, s') \<Rightarrow> importEach L key rnd (n + 1) rest s' (cnt + 1))
      else importEach L key rnd n rest s (cnt + 1))"

text \<open>
  \<open>App.importData(e)\<close>. \<open>file\<close> is the text of \<open>e.target.files[0]\<close>, \<open>None\<close> when no file
  was chosen. Every exception ends in the \<open>catch\<close>, which shows it; the store keeps what
  was written before the exception.
\<close>

definition App_importData ::
  "'w CryptoJS \<Rightarrow> (nat \<Rightarrow> 'w) \<Rightarrow> string option \<Rightarrow> 'w app \<Rightarrow> storage \<Rightarrow> 'w app \<times> storage" where
  "App_importData L rnd file a s =
     (case file of
        None \<Rightarrow> (a, s)
      | Some text \<Rightarrow>
          (case JSON_parse_snapshot L text of
             None \<Rightarrow> (showToast (Toast_error SyntaxError) a, s)
           | Some data \<Rightarrow>
               if data_version data \<noteq> Some 1
               then (showToast (Toast_error UnsupportedVersion) a, s)
               else
                 (case encryptionKey a of
                    None \<Rightarrow> (showToast (Toast_error NotLoggedIn) a, s)
                  | Some key \<Rightarrow>
                      (case data_passwords data of
                         None \<Rightarrow> (showToast (Toast_error TypeError) a, s)
                       | Some pws \<Rightarrow>
                           (case importEach L key rnd 0 pws s 0 of
                              (s1, Inl e) \<Rightarrow> (showToast (Toast_error e) a, s1)
                            | (s1, Inr cnt) \<Rightarrow>
                                (let (a2, s2) = loadPasswords L a s1
                                 in (showToast (Toast_imported cnt) a2, s2)))))))"

section \<open>GitHubSync and the remote repository\<close>

record sync =
  token :: jsstr
  REPO_OWNER :: jsstr
  REPO_NAME :: jsstr

definition configured :: "sync \<Rightarrow> bool" where
  "configured g \<longleftrightarrow> truthy (token g) \<and> truthy (REPO_OWNER g) \<and> truthy (REPO_NAME g)"

text \<open>\<open>init()\<close>: the configuration read from the settings, and whether it is complete.\<close>

definition init :: "storage \<Rightarrow> sync \<times> bool" where
  "init s =
     (let g = \<lparr>token = getSetting ''githubToken'' s,
               REPO_OWNER = getSetting ''githubRepoOwner'' s,
               REPO_NAME = getSetting ''githubRepoName'' s\<rparr>
      in (g, configured g))"

definition saveConfig :: "jsstr \<Rightarrow> jsstr \<Rightarrow> jsstr \<Rightarrow> storage \<Rightarrow> sync \<times> storage" where
  "saveConfig tok repoOwner repoName s =
     (\<lparr>token = tok, REPO_OWNER = repoOwner, REPO_NAME = repoName\<rparr>,
      saveSetting ''githubRepoName'' repoName
        (saveSetting ''githubRepoOwner'' repoOwner
           (saveSetting ''githubToken'' tok s)))"

text \<open>
  Modelled from the spec: the remote store capability of section 6, which the repository
  reaches through \<open>fetch\<close> and does not contain. The remote holds at most one snapshot
  file with its version token (the \<open>sha\<close>); \<open>GET\<close> returns the file and its token or
  not-found; \<open>PUT\<close> creates the file when there is none and no token is sent, replaces it
  when the token sent is the current one, and answers with a conflict otherwise. Every
  accepted write issues a new token. A \<open>fault\<close> makes every request fail: \<open>Unreachable\<close>
  rejects the \<open>fetch\<close> promise, \<open>Refuses m\<close> answers with a non-success status whose body
  carries the message \<open>m\<close>. Content is held decoded; the Base64 transport is not modelled.
\<close>

datatype fault = Unreachable | Refuses "string option"

record remote =
  remote_file :: "(string \<times> nat) option"
  issued :: nat
  remote_fault :: "fault option"

datatype response =
    Rejected
  | Status_404
  | Status_not_ok "string option"
  | Status_ok string nat

definition remote_GET :: "remote \<Rightarrow> response" where
  "remote_GET r =
     (case remote_fault r of
        Some Unreachable \<Rightarrow> Rejected
      | Some (Refuses m) \<Rightarrow> Status_not_ok m
      | None \<Rightarrow>
          (case remote_file r of
             None \<Rightarrow> Status_404
           | Some (content, sha) \<Rightarrow> Status_ok content sha))"

definition remote_write :: "string \<Rightarrow> remote \<Rightarrow> response \<times> remote" where
  "remote_write content r =
     (Status_ok content (issued r + 1),
      r\<lparr>remote_file := Some (content, issued r + 1), issued := issued r + 1\<rparr>)"

definition remote_PUT :: "string \<Rightarrow> nat option \<Rightarrow> remote \<Rightarrow> response \<times> remote" where
  "remote_PUT content sha r =
     (case remote_fault r of
        Some Unreachable \<Rightarrow> (Rejected, r)
      | Some (Refuses m) \<Rightarrow> (Status_not_ok m, r)
      | None \<Rightarrow>
          (case remote_file r of
             None \<Rightarrow>
               (if sha = None then remote_write content r
                else (Status_not_ok (Some ''conflict''), r))
           | Some (current, current_sha) \<Rightarrow>
               (if sha = Some current_sha then remote_write content r
                else (Status_not_ok (Some ''conflict''), r))))"

text \<open>\<open>GitHubSync.pull()\<close>: \<open>null\<close> for a 404, the content and \<open>sha\<close> for a success.\<close>

definition pull :: "sync \<Rightarrow> remote \<Rightarrow> error + (string \<times> nat) option" where
  "pull g r =
     (if \<not> configured g then Inl NotConfigured
      else
        (case remote_GET r of
           Rejected \<Rightarrow> Inl NetworkError
         | Status_404 \<Rightarrow> Inr None
         | Status_not_ok m \<Rightarrow> Inl (SyncFailure m)
         | Status_ok content sha \<Rightarrow> Inr (Some (content, sha))))"

text \<open>
  \<open>GitHubSync.push(content, message)\<close>. The function has no token parameter: it calls
  \<open>this.pull()\<close> itself, keeps the \<open>sha\<close> of an existing file (any exception of that call is
  swallowed and leaves \<open>sha = null\<close>), and sends the \<open>PUT\<close> with that \<open>sha\<close>. \<open>others\<close> is
  what other writers do to the remote between the two requests (the identity when there
  are none). The result is the new token, or the exception. The commit message does not
  affect the file and is left out.
\<close>

definition push :: "sync \<Rightarrow> string \<Rightarrow> (remote \<Rightarrow> remote) \<Rightarrow> remote \<Rightarrow> (error + nat) \<times> remote" where
  "push g content others r =
     (if \<not> configured g then (Inl NotConfigured, r)
      else
        (let sha = (case pull g r of Inr (Some (existing, existing_sha)) \<Rightarrow> Some existing_sha
                    | _ \<Rightarrow> None)
         in case remote_PUT content sha (others r) of
              (Rejected, r') \<Rightarrow> (Inl NetworkError, r')
            | (Status_ok c new_sha, r') \<Rightarrow> (Inr new_sha, r')
            | (Status_404, r') \<Rightarrow> (Inl (SyncFailure None), r')
            | (Status_not_ok m, r') \<Rightarrow> (Inl (SyncFailure m), r')))"

text \<open>
  \<open>App.handleSyncPull()\<close>. After the version check it clears the store, restores the
  snapshot's three settings, writes the in-memory sync configuration back, adds the
  snapshot's objects and drops the session key. An exception at any point ends in the
  \<open>catch\<close>, which shows it and undoes nothing. The delayed switch to the login screen is
  not modelled.
\<close>

definition handleSyncPull ::
  "'w CryptoJS \<Rightarrow> 'w app \<Rightarrow> sync \<Rightarrow> storage \<Rightarrow> remote \<Rightarrow> 'w app \<times> sync \<times> storage" where
  "handleSyncPull L a g s r =
     (let a0 = showToast Toast_pulling a
      in case pull g r of
           Inl e \<Rightarrow> (showToast (Toast_error e) a0, g, s)
         | Inr None \<Rightarrow> (showToast Toast_no_remote_data a0, g, s)
         | Inr (Some (content, sha)) \<Rightarrow>
             (case JSON_parse_snapshot L content of
                None \<Rightarrow> (showToast (Toast_error SyntaxError) a0, g, s)
              | Some data \<Rightarrow>
                  if data_version data \<noteq> Some 1
                  then (showToast (Toast_error UnsupportedVersion) a0, g, s)
                  else
                    (let s1 = clearAll s;
                         s2 = restoreSettings data s1;
                         (g', s3) = saveConfig (token g) (REPO_OWNER g) (REPO_NAME g) s2
                     in case data_passwords data of
                          None \<Rightarrow> (showToast (Toast_error TypeError) a0, g', s3)
                        | Some pws \<Rightarrow>
                            (case addPasswords pws s3 of
                               (s4, Inl e) \<Rightarrow> (showToast (Toast_error e) a0, g', s4)
                             | (s4, Inr u) \<Rightarrow>
                                 (showToast (Toast_synced (length pws))
                                    (a0\<lparr>encryptionKey := None, encryptionSalt := Null\<rparr>),
                                  g', s4)))))"

section \<open>A reference instance of the library\<close>

text \<open>
  A small executable instance of the library parameter, over \<open>WordArray\<close>s that are byte
  strings. It meets \<open>library_contract\<close> and is used to run the model on concrete inputs.
  The cipher is a keyed substitution: the first two bytes of the key name the two
  characters it exchanges. Like AES in CBC mode it carries no authentication tag, so
  decryption under any key returns some byte string. The key derivation pads or cuts the
  passphrase to one 64-byte block, as HMAC does with its key, and appends the salt.
  The JSON text of a password record is the tag \<open>R\<close> followed by its five strings, each
  string written with an escape character before every character and closed by a dot;
  the text of a string is the tag \<open>S\<close> followed by the string; that of \<open>null\<close> is \<open>Z\<close>;
  that of a number is \<open>N\<close> followed by as many digits 1. Booleans, arrays and other
  objects are written as a tag only and are not read back. Snapshot files are parsed by
  looking them up in a table \<open>files\<close>.
\<close>

fun swap_chars :: "string \<Rightarrow> char \<Rightarrow> char" where
  "swap_chars (x # y # k) c = (if c = x then y else if c = y then x else c)"
| "swap_chars k c = c"

definition enc_str :: "string \<Rightarrow> string" where
  "enc_str s = concat (map (\<lambda>c. [CHR ''c'', c]) s) @ ''.''"

fun dec_str :: "string \<Rightarrow> (string \<times> string) option" where
  "dec_str [] = None"
| "dec_str [a] = (if a = CHR ''.'' then Some ([], []) else None)"
| "dec_str (a # b # r) =
     (if a = CHR ''c'' then map_option (\<lambda>(s, r'). (b # s, r')) (dec_str r)
      else if a = CHR ''.'' then Some ([], b # r) else None)"

fun ref_stringify :: "json \<Rightarrow> string" where
  "ref_stringify JNull = ''Z''"
| "ref_stringify (JBool b) = (if b then ''T'' else ''F'')"
| "ref_stringify (JNumber n) = CHR ''N'' # replicate (nat n) (CHR ''1'')"
| "ref_stringify (JString s) = CHR ''S'' # s"
| "ref_stringify (JArray vs) = ''A''"
| "ref_stringify (JObject props) = ''O''"
| "ref_stringify (PasswordData a b c d e) =
     CHR ''R'' # enc_str a @ enc_str b @ enc_str c @ enc_str d @ enc_str e"

definition ref_parse_record :: "string \<Rightarrow> json option" where
  "ref_parse_record t =
     Option.bind (dec_str t) (\<lambda>(a, t1).
     Option.bind (dec_str t1) (\<lambda>(b, t2).
     Option.bind (dec_str t2) (\<lambda>(c, t3).
     Option.bind (dec_str t3) (\<lambda>(d, t4).
     Option.bind (dec_str t4) (\<lambda>(e, t5).
       if t5 = [] then Some (PasswordData a b c d e) else None)))))"

fun ref_parse :: "string \<Rightarrow> json option" where
  "ref_parse [] = None"
| "ref_parse (tag # t) =
     (if tag = CHR ''R'' then ref_parse_record t
      else if tag = CHR ''S'' then Some (JString t)
      else if tag = CHR ''Z'' \<and> t = [] then Some JNull
      else if tag = CHR ''N'' \<and> set t \<subseteq> {CHR ''1''} then Some (JNumber (int (length t)))
      else None)"

definition reference_library :: "(string \<times> snapshot) list \<Rightarrow> string CryptoJS" where
  "reference_library files =
     \<lparr>PBKDF2 = (\<lambda>p s. take 64 (p @ replicate 64 (CHR 0x00)) @ s),
      AES_encrypt = (\<lambda>m k v. map (swap_chars k) m),
      AES_decrypt = (\<lambda>c k v. map (swap_chars k) c),
      Utf8_stringify = Some,
      Base64_stringify = (\<lambda>w. w),
      Base64_parse = (\<lambda>t. t),
      JSON_stringify = ref_stringify,
      JSON_parse = ref_parse,
      JSON_parse_snapshot = map_of files\<rparr>"

section \<open>Notions used to state the properties\<close>

text \<open>
  A stored object decrypts under a key when \<open>decrypt\<close> raises nothing on its \<open>ciphertext\<close>
  and \<open>iv\<close>; \<open>decrypted\<close> is then the element \<open>loadPasswords\<close> pushes for it.
\<close>

definition decryptable :: "'w CryptoJS \<Rightarrow> 'w option \<Rightarrow> int \<times> stored_object \<Rightarrow> bool" where
  "decryptable L key ep \<longleftrightarrow> \<not> isl (decrypt L (ciphertext (snd ep)) (iv (snd ep)) key)"

definition decrypted :: "'w CryptoJS \<Rightarrow> 'w option \<Rightarrow> int \<times> stored_object \<Rightarrow> int \<times> json" where
  "decrypted L key ep = (fst ep, projr (decrypt L (ciphertext (snd ep)) (iv (snd ep)) key))"

text \<open>
  The entries an import distinguishes: those that already carry a non-empty \<open>ciphertext\<close>
  and \<open>iv\<close>, and among the others those that have a \<open>service\<close>. An import has succeeded
  when it ends with its "imported" toast; an object decrypts under a key when \<open>decrypt\<close>
  raises nothing on it.
\<close>

definition already_encrypted :: "entry \<Rightarrow> bool" where
  "already_encrypted pw \<longleftrightarrow> truthy (ciphertext (snd pw)) \<and> truthy (iv (snd pw))"

definition encrypted_on_import :: "entry \<Rightarrow> bool" where
  "encrypted_on_import pw \<longleftrightarrow> \<not> already_encrypted pw \<and> service (snd pw) \<noteq> Undefined"

definition import_succeeded :: "'w app \<Rightarrow> bool" where
  "import_succeeded a' \<longleftrightarrow>
     (case rev (toasts a') of Toast_imported n # shown \<Rightarrow> True | _ \<Rightarrow> False)"

definition object_decrypts :: "'w CryptoJS \<Rightarrow> 'w option \<Rightarrow> stored_object \<Rightarrow> bool" where
  "object_decrypts L key ob \<longleftrightarrow> \<not> isl (decrypt L (ciphertext ob) (iv ob) key)"

text \<open>
  A pull has succeeded when \<open>handleSyncPull\<close> ends with its "synchronised" toast, which is
  shown only when no exception was raised.
\<close>

definition pull_succeeded :: "'w app \<Rightarrow> bool" where
  "pull_succeeded a' \<longleftrightarrow> (case rev (toasts a') of Toast_synced n # shown \<Rightarrow> True | _ \<Rightarrow> False)"

section \<open>Sample data\<close>

text \<open>
  A store with two objects encrypted under \<open>key-1\<close> and one that does not decrypt, and a
  session unlocked with that key.
\<close>

definition sample_record :: json where
  "sample_record = PasswordData ''Example'' [] ''alice'' ''p@ss'' []"

definition sample_rows :: "(int \<times> stored_object) list" where
  "sample_rows =
     [(1, encrypt (reference_library []) sample_record ''key-1'' ''iv-1''),
      (2, no_fields\<lparr>ciphertext := Str ''garbage'', iv := Str ''iv-2''\<rparr>),
      (3, encrypt (reference_library []) (PasswordData ''Mail'' ''a@b.c'' ''bob'' ''hunter2'' ''work'') ''key-1'' ''iv-3'')]"

definition sample_storage :: storage where
  "sample_storage =
     \<lparr>pw_rows = sample_rows, pw_keygen = 4,
      settings = [''masterHash'' \<mapsto> Str ''aGFzaA=='', ''masterSalt'' \<mapsto> Str ''c2FsdA=='',
                  ''encryptionSalt'' \<mapsto> Str ''ZW5jcw=='', ''githubToken'' \<mapsto> Str ''ghp_token'',
                  ''githubRepoOwner'' \<mapsto> Str ''alice'', ''githubRepoName'' \<mapsto> Str ''vault'']\<rparr>"

definition sample_app :: "string app" where
  "sample_app = \<lparr>encryptionKey = Some ''key-1'', encryptionSalt = Str ''ZW5jcw=='',
                  passwords = [], toasts = []\<rparr>"

text \<open>
  Snapshot files: one of version 1 with three encrypted objects, the same with version 2,
  one that mixes an entry encrypted under \<open>key-1\<close>, an entry whose \<open>ciphertext\<close> does not
  decrypt, a plaintext entry and an entry with neither \<open>ciphertext\<close> nor \<open>service\<close>, and
  one whose second entry has the id of an object of \<open>sample_storage\<close>. A locked session and
  an empty store.
\<close>

definition sample_entries :: "entry list" where
  "sample_entries =
     [(Some 1, encrypt (reference_library []) sample_record ''key-9'' ''iv-1''),
      (Some 2, encrypt (reference_library []) (JString ''other'') ''key-9'' ''iv-2''),
      (Some 5, encrypt (reference_library []) sample_record ''key-9'' ''iv-3'')]"

definition sample_snapshot :: snapshot where
  "sample_snapshot =
     \<lparr>data_version = Some 1, data_masterHash = Str ''cmVtb3Rl'', data_masterSalt = Str ''cnNhbHQ='',
      data_encryptionSalt = Str ''cmVuYw=='', data_passwords = Some sample_entries\<rparr>"

definition mixed_entries :: "entry list" where
  "mixed_entries =
     [(Some 7, encrypt (reference_library []) sample_record ''key-1'' ''iv-1''),
      (Some 8, no_fields\<lparr>ciphertext := Str ''garbage'', iv := Str ''iv-2''\<rparr>),
      (None, no_fields\<lparr>service := Str ''Shop'', username := Str ''carol'', password := Str ''pw''\<rparr>),
      (None, no_fields\<lparr>username := Str ''dave''\<rparr>)]"

definition duplicate_entries :: "entry list" where
  "duplicate_entries =
     [(Some 8, encrypt (reference_library []) sample_record ''key-1'' ''iv-1''),
      (Some 2, encrypt (reference_library []) sample_record ''key-1'' ''iv-2''),
      (Some 9, encrypt (reference_library []) sample_record ''key-1'' ''iv-3'')]"

definition sample_files :: "(string \<times> snapshot) list" where
  "sample_files =
     [(''{version:1,passwords:[1,2,5]}'', sample_snapshot),
      (''{version:2,passwords:[1,2,5]}'', sample_snapshot\<lparr>data_version := Some 2\<rparr>),
      (''{version:1,passwords:[7,8,Shop,dave]}'', sample_snapshot\<lparr>data_passwords := Some mixed_entries\<rparr>),
      (''{version:1,passwords:[8,2,9]}'', sample_snapshot\<lparr>data_passwords := Some duplicate_entries\<rparr>)]"

definition sample_rnd :: "nat \<Rightarrow> string" where
  "sample_rnd n = ''iv-0''"

definition locked_app :: "string app" where
  "locked_app = sample_app\<lparr>encryptionKey := None\<rparr>"

definition empty_storage :: storage where
  "empty_storage = \<lparr>pw_rows = [], pw_keygen = 1, settings = Map.empty\<rparr>"


text \<open>
  A complete sync configuration (the one stored in \<open>sample_storage\<close>), a remote that holds
  the version-1 snapshot, and two states of a remote whose file is rewritten: \<open>A\<close> with
  token 1, then \<open>B\<close> with token 2. \<open>other_device\<close> is another client that replaces the
  file by \<open>B\<close>, sending the current token.
\<close>

definition sample_sync :: sync where
  "sample_sync = \<lparr>token = Str ''ghp_token'', REPO_OWNER = Str ''alice'', REPO_NAME = Str ''vault''\<rparr>"

definition sample_remote :: remote where
  "sample_remote =
     \<lparr>remote_file = Some (''{version:1,passwords:[1,2,5]}'', 1), issued = 1, remote_fault = None\<rparr>"

definition remote_A :: remote where
  "remote_A = \<lparr>remote_file = Some (''A'', 1), issued = 1, remote_fault = None\<rparr>"

definition remote_B :: remote where
  "remote_B = \<lparr>remote_file = Some (''B'', 2), issued = 2, remote_fault = None\<rparr>"

definition other_device :: "remote \<Rightarrow> remote" where
  "other_device r = snd (remote_PUT ''B'' (map_option snd (remote_file r)) r)"

section \<open>Properties of the reference instance\<close>

lemma dec_str_enc_str: "dec_str (enc_str s @ r) = Some (s, r)"
  by (induction s) (auto simp: enc_str_def split: list.splits; cases r; simp)+

lemma swap_chars_twice: "swap_chars k (swap_chars k c) = c"
  by (cases "(k, c)" rule: swap_chars.cases) auto

lemma ref_parse_stringify:
  "ref_parse (ref_stringify (PasswordData a b c d e)) = Some (PasswordData a b c d e)"
  using dec_str_enc_str [of e "[]"] by (simp add: ref_parse_record_def dec_str_enc_str)

lemma reference_library_contract: "library_contract (reference_library files)"
  by (simp add: library_contract_def reference_library_def swap_chars_twice comp_def
      ref_parse_stringify del: ref_stringify.simps ref_parse.simps)

section \<open>CryptoUtils: encryption round trip\<close>

text \<open>
  C2. For every password record \<open>R\<close> (its five strings \<open>a\<close> to \<open>e\<close>), every key and every
  initialisation vector that \<open>encrypt\<close> may draw, decrypting the \<open>ciphertext\<close> and \<open>iv\<close>
  that \<open>encrypt\<close> returns, with the same key, returns \<open>R\<close>. The library is assumed to
  meet its contract.
\<close>

theorem decrypt_encrypt_roundtrip:
  assumes "library_contract L"
  shows "decrypt L (ciphertext (encrypt L (PasswordData a b c d e) key v))
           (iv (encrypt L (PasswordData a b c d e) key v)) (Some key)
         = Inr (PasswordData a b c d e)"
  using assms
  by (simp add: library_contract_def encrypt_def no_fields_def base64ToWordArray_def Let_def)

theorem decrypt_encrypt_roundtrip_witness:
  "library_contract (reference_library []) \<and>
   decrypt (reference_library [])
     (ciphertext (encrypt (reference_library [])
        (PasswordData ''Example'' [] ''alice'' ''p@ss'' []) ''key-1'' ''iv-1''))
     (iv (encrypt (reference_library [])
        (PasswordData ''Example'' [] ''alice'' ''p@ss'' []) ''key-1'' ''iv-1''))
     (Some ''key-1'')
   = Inr (PasswordData ''Example'' [] ''alice'' ''p@ss'' [])"
  using decrypt_encrypt_roundtrip [OF reference_library_contract, of "[]"]
    reference_library_contract [of "[]"] by simp

text \<open>
  C3. The claim is that decrypting \<open>encrypt(R, K)\<close> with any other key fails. The code has
  no check of the key: \<open>decrypt\<close> returns whatever the cipher's output under the other key
  parses to. With the reference cipher, the record encrypted under \<open>key-1\<close> decrypts under
  the key \<open>RS\<close> to a string that is not the record, and no exception is raised.

  AES itself behaves alike (computed with OpenSSL, outside this theory): the record
  \<open>{service: Example, email: empty, username: alice, password: p@ss, memo: empty}\<close>
  encrypted with AES-256-CBC under the key \<open>00 01 ... 1f\<close> and the vector
  \<open>10 11 ... 1f\<close> decrypts under the key \<open>00 01 ... 1b 00 00 4a 18\<close> to 80 bytes
  of which the first is \<open>0x35\<close> and the last \<open>0x4f\<close>. CryptoJS removes as many bytes
  as the last byte says without checking them, the text left is \<open>5\<close>, and
  \<open>JSON.parse\<close> returns the number 5.
\<close>

theorem decrypt_other_key_counterexample:
  "library_contract (reference_library []) \<and> ''RS'' \<noteq> ''key-1'' \<and>
   decrypt (reference_library [])
     (ciphertext (encrypt (reference_library [])
        (PasswordData ''Example'' [] ''alice'' ''p@ss'' []) ''key-1'' ''iv-1''))
     (iv (encrypt (reference_library [])
        (PasswordData ''Example'' [] ''alice'' ''p@ss'' []) ''key-1'' ''iv-1''))
     (Some ''RS'')
   = Inr (JString ''cEcxcacmcpclck..caclciccck.cpc@cscs..'')"
  using reference_library_contract [of "[]"]
  by (simp add: reference_library_def encrypt_def no_fields_def base64ToWordArray_def enc_str_def)

text \<open>
  C3, as the code has it. Decrypting \<open>encrypt(data, key)\<close> with any key \<open>key'\<close>, equal to
  \<open>key\<close> or not, raises exactly when the cipher's output under \<open>key'\<close> is not UTF-8 or
  its text is not JSON, and the exception is the one failure value; otherwise \<open>decrypt\<close>
  returns the parsed value, whatever its shape. The library is assumed to meet its
  contract.
\<close>

theorem decrypt_other_key:
  assumes "library_contract L"
  shows "decrypt L (ciphertext (encrypt L data key v)) (iv (encrypt L data key v)) (Some key') =
           (case Utf8_stringify L
                   (AES_decrypt L (AES_encrypt L (JSON_stringify L data) key v) key' v) of
              None \<Rightarrow> Inl DecryptionFailure
            | Some text \<Rightarrow>
                (case JSON_parse L text of
                   None \<Rightarrow> Inl DecryptionFailure
                 | Some parsed \<Rightarrow> Inr parsed))"
  using assms
  by (simp add: library_contract_def encrypt_def no_fields_def base64ToWordArray_def Let_def)

theorem decrypt_other_key_witness:
  "library_contract (reference_library []) \<and>
   decrypt (reference_library [])
     (ciphertext (encrypt (reference_library []) (JString ''hello'') ''key-1'' ''iv-1''))
     (iv (encrypt (reference_library []) (JString ''hello'') ''key-1'' ''iv-1''))
     (Some ''SX'')
   = Inl DecryptionFailure"
  using decrypt_other_key [OF reference_library_contract, of "[]" "JString ''hello''"
      "''key-1''" "''iv-1''" "''SX''"] reference_library_contract [of "[]"]
  by (simp add: reference_library_def)

section \<open>CryptoUtils: master password verification\<close>

text \<open>
  Whenever the key derivation has finitely many results for a salt (PBKDF2 is called with
  a 256-bit output), some passphrase other than the one hashed verifies against the
  stored hash.
\<close>

lemma verifyMasterPassword_accepts_another:
  assumes "finite (range (\<lambda>p. PBKDF2 L p (base64ToWordArray L saltBase64)))"
  shows "\<exists>p p2. p2 \<noteq> p \<and>
           verifyMasterPassword L p2 (hash (hashMasterPassword L p saltBase64))
             (salt (hashMasterPassword L p saltBase64))"
proof -
  let ?f = "\<lambda>p. PBKDF2 L p (base64ToWordArray L saltBase64)"
  have "\<not> inj ?f"
  proof
    assume "inj ?f"
    with assms have "finite (UNIV :: string set)" by (rule finite_imageD)
    then show False by (simp add: infinite_UNIV_listI)
  qed
  then obtain p p2 where "?f p = ?f p2" "p \<noteq> p2" by (auto simp: inj_on_def)
  then show ?thesis
    by (intro exI [of _ p] exI [of _ p2])
      (simp add: verifyMasterPassword_def hashMasterPassword_def Let_def)
qed

text \<open>
  C8. The claim is that \<open>verify(P2, hashOf(P, S), S)\<close> is false for every \<open>P2\<close> other than
  \<open>P\<close>. The code compares derived hashes, not passphrases. With the reference key
  derivation, which pads the passphrase with zero bytes to a block as HMAC pads its key,
  the passphrase followed by a zero byte verifies against the hash of the passphrase.

  PBKDF2 with HMAC-SHA-256 itself behaves alike (computed with OpenSSL, outside this
  theory): with 100000 iterations and a 256-bit output, \<open>correcthorse123\<close> and
  \<open>correcthorse123\<close> followed by a zero byte have the same hash under the same salt.
\<close>

theorem verifyMasterPassword_counterexample:
  "''correcthorse123'' @ [CHR 0x00] \<noteq> ''correcthorse123'' \<and>
   verifyMasterPassword (reference_library []) (''correcthorse123'' @ [CHR 0x00])
     (hash (hashMasterPassword (reference_library []) ''correcthorse123'' ''c2FsdA==''))
     (salt (hashMasterPassword (reference_library []) ''correcthorse123'' ''c2FsdA==''))"
  by code_simp

text \<open>
  C8, as the code has it. \<open>verify(P, hashOf(P, S), S)\<close> is true for every passphrase and
  salt; and \<open>verify(P2, hashOf(P, S), S)\<close> is true exactly when the key derivation gives
  \<open>P2\<close> and \<open>P\<close> the same hash under \<open>S\<close>, so it is false whenever the two derived
  hashes differ. The library is assumed to meet its contract (Base64 is injective).
\<close>

theorem verifyMasterPassword_hashMasterPassword:
  assumes "library_contract L"
  shows "verifyMasterPassword L p (hash (hashMasterPassword L p saltBase64))
           (salt (hashMasterPassword L p saltBase64)) \<and>
         (verifyMasterPassword L p2 (hash (hashMasterPassword L p saltBase64))
           (salt (hashMasterPassword L p saltBase64))
          = (PBKDF2 L p2 (Base64_parse L saltBase64) = PBKDF2 L p (Base64_parse L saltBase64)))"
proof -
  have inj: "Base64_stringify L x = Base64_stringify L y \<Longrightarrow> x = y" for x y
    using assms unfolding library_contract_def by metis
  show ?thesis
    by (auto simp: verifyMasterPassword_def hashMasterPassword_def Let_def
        wordArrayToBase64_def base64ToWordArray_def dest: inj)
qed

theorem verifyMasterPassword_hashMasterPassword_witness:
  "library_contract (reference_library []) \<and>
   verifyMasterPassword (reference_library []) ''correcthorse123''
     (hash (hashMasterPassword (reference_library []) ''correcthorse123'' ''c2FsdA==''))
     (salt (hashMasterPassword (reference_library []) ''correcthorse123'' ''c2FsdA=='')) \<and>
   \<not> verifyMasterPassword (reference_library []) ''correcthorse124''
     (hash (hashMasterPassword (reference_library []) ''correcthorse123'' ''c2FsdA==''))
     (salt (hashMasterPassword (reference_library []) ''correcthorse123'' ''c2FsdA==''))"
  using verifyMasterPassword_hashMasterPassword [OF reference_library_contract, of "[]"
      "''correcthorse123''" "''c2FsdA==''" "''correcthorse124''"]
    reference_library_contract [of "[]"]
  by (simp add: reference_library_def)

section \<open>App.loadPasswords: quarantine of objects that do not decrypt\<close>

text \<open>The keys of the \<open>passwords\<close> store stay distinct under every storage call.\<close>

lemma distinct_keys_insort:
  "distinct (map fst (insort_key fst (k, ob) rows)) \<longleftrightarrow>
     k \<notin> set (map fst rows) \<and> distinct (map fst rows)"
  by (induction rows) (auto simp: set_insort_key)

lemma store_keys_stay_distinct:
  assumes "distinct (map fst (pw_rows s))"
  shows "addPassword pw s = Inr (k, s') \<Longrightarrow> distinct (map fst (pw_rows s'))"
    and "distinct (map fst (pw_rows (deletePassword i s)))"
    and "distinct (map fst (pw_rows (clearAll s)))"
    and "distinct (map fst (pw_rows (saveSetting key val s)))"
  using assms
  by (auto simp: addPassword_def Let_def distinct_keys_insort deletePassword_def clearAll_def
      saveSetting_def distinct_map_filter split: if_splits)

lemma decryptEach_filter:
  "decryptEach L key eps pws invalidIds =
     (pws @ map (decrypted L key) (filter (decryptable L key) eps),
      invalidIds @ map fst (filter (\<lambda>ep. \<not> decryptable L key ep) eps))"
proof (induction eps arbitrary: pws invalidIds)
  case Nil
  then show ?case by simp
next
  case (Cons ep eps)
  show ?case
  proof (cases "decrypt L (ciphertext (snd ep)) (iv (snd ep)) key")
    case (Inl e)
    then show ?thesis by (simp add: Cons.IH decryptable_def)
  next
    case (Inr d)
    then show ?thesis by (simp add: Cons.IH decryptable_def decrypted_def)
  qed
qed

lemma deleteEach_rows:
  "pw_rows (deleteEach ids s) = filter (\<lambda>row. fst row \<notin> set ids) (pw_rows s)"
  by (induction ids arbitrary: s) (auto simp: deletePassword_def intro: filter_cong)

lemma deleteEach_frame:
  "pw_keygen (deleteEach ids s) = pw_keygen s \<and> settings (deleteEach ids s) = settings s"
  by (induction ids arbitrary: s) (auto simp: deletePassword_def)

lemma filter_other_keys:
  assumes "distinct (map fst rows)"
  shows "filter (\<lambda>row. fst row \<notin> set (map fst (filter (\<lambda>ep. \<not> P ep) rows))) rows = filter P rows"
proof (rule filter_cong [OF refl])
  fix row assume row: "row \<in> set rows"
  have inj: "inj_on fst (set rows)" using assms by (simp add: distinct_map)
  show "(fst row \<notin> set (map fst (filter (\<lambda>ep. \<not> P ep) rows))) = P row"
  proof
    assume "fst row \<notin> set (map fst (filter (\<lambda>ep. \<not> P ep) rows))"
    with row show "P row" by force
  next
    assume P: "P row"
    show "fst row \<notin> set (map fst (filter (\<lambda>ep. \<not> P ep) rows))"
    proof
      assume "fst row \<in> set (map fst (filter (\<lambda>ep. \<not> P ep) rows))"
      then obtain ep where "ep \<in> set rows" "\<not> P ep" "fst ep = fst row" by auto
      with inj row have "ep = row" by (auto dest: inj_onD)
      with P \<open>\<not> P ep\<close> show False by simp
    qed
  qed
qed

lemma loadPasswords_effect:
  assumes "distinct (map fst (pw_rows s))"
  shows "passwords (fst (loadPasswords L a s))
           = map (decrypted L (encryptionKey a)) (filter (decryptable L (encryptionKey a)) (pw_rows s))"
    and "pw_rows (snd (loadPasswords L a s)) = filter (decryptable L (encryptionKey a)) (pw_rows s)"
    and "settings (snd (loadPasswords L a s)) = settings s"
    and "encryptionKey (fst (loadPasswords L a s)) = encryptionKey a"
    and "toasts (fst (loadPasswords L a s))
           = toasts a
             @ (if filter (\<lambda>ep. \<not> decryptable L (encryptionKey a) ep) (pw_rows s) = [] then []
                else [Toast_corrupt_deleted
                        (length (filter (\<lambda>ep. \<not> decryptable L (encryptionKey a) ep) (pw_rows s)))])
             @ (if list_all service_is_string
                     (map (decrypted L (encryptionKey a))
                        (filter (decryptable L (encryptionKey a)) (pw_rows s)))
                then [] else [Toast_load_failed])"
proof -
  let ?good = "filter (decryptable L (encryptionKey a)) (pw_rows s)"
  let ?bad = "filter (\<lambda>ep. \<not> decryptable L (encryptionKey a) ep) (pw_rows s)"
  let ?a1 = "a\<lparr>passwords := map (decrypted L (encryptionKey a)) ?good\<rparr>"
  let ?a2 = "if ?bad = [] then ?a1 else showToast (Toast_corrupt_deleted (length ?bad)) ?a1"
  let ?s2 = "if ?bad = [] then s else deleteEach (map fst ?bad) s"
  have run: "loadPasswords L a s =
      (if list_all service_is_string (passwords ?a2) then ?a2 else showToast Toast_load_failed ?a2, ?s2)"
    by (simp add: loadPasswords_def getAllPasswords_def decryptEach_filter Let_def
        renderPasswordList_def)
  have pws: "passwords ?a2 = map (decrypted L (encryptionKey a)) ?good"
    by (simp add: showToast_def)
  have rows: "pw_rows ?s2 = ?good"
  proof (cases "?bad = []")
    case True
    then have "?good = pw_rows s" by (simp add: filter_empty_conv)
    with True show ?thesis by simp
  next
    case False
    then show ?thesis
      using filter_other_keys [OF assms, of "decryptable L (encryptionKey a)"]
      by (simp add: deleteEach_rows)
  qed
  show "passwords (fst (loadPasswords L a s)) = map (decrypted L (encryptionKey a)) ?good"
    by (simp add: run showToast_def)
  show "pw_rows (snd (loadPasswords L a s)) = ?good"
    using rows by (simp add: run)
  show "settings (snd (loadPasswords L a s)) = settings s"
    using deleteEach_frame [of "map fst ?bad" s] by (simp add: run)
  show "encryptionKey (fst (loadPasswords L a s)) = encryptionKey a"
    by (simp add: run showToast_def)
  show "toasts (fst (loadPasswords L a s))
           = toasts a
             @ (if ?bad = [] then [] else [Toast_corrupt_deleted (length ?bad)])
             @ (if list_all service_is_string (map (decrypted L (encryptionKey a)) ?good)
                then [] else [Toast_load_failed])"
    by (simp add: run showToast_def)
qed



section \<open>Import\<close>

text \<open>
  C5. For every snapshot whose \<open>version\<close> is not the number 1, \<open>App.importData\<close> and
  \<open>Storage.importData\<close> raise the unsupported-version error and leave the store exactly
  as it was (settings and objects). The check is the first thing done with the parsed
  file: the result is the same whatever the other fields of the snapshot, the session
  state and the store are.
\<close>

theorem importData_rejects_other_versions:
  assumes "JSON_parse_snapshot L text = Some data" and "data_version data \<noteq> Some 1"
  shows "App_importData L rnd (Some text) a s = (showToast (Toast_error UnsupportedVersion) a, s)
       \<and> Storage_importData L text s = (s, Inl UnsupportedVersion)"
  using assms by (simp add: App_importData_def Storage_importData_def)

theorem importData_rejects_other_versions_witness:
  "JSON_parse_snapshot (reference_library sample_files) ''{version:2,passwords:[1,2,5]}''
     = Some (sample_snapshot\<lparr>data_version := Some 2\<rparr>)
   \<and> data_version (sample_snapshot\<lparr>data_version := Some 2\<rparr>) \<noteq> Some 1
   \<and> App_importData (reference_library sample_files) sample_rnd (Some ''{version:2,passwords:[1,2,5]}'')
        sample_app sample_storage
      = (showToast (Toast_error UnsupportedVersion) sample_app, sample_storage)
   \<and> Storage_importData (reference_library sample_files) ''{version:2,passwords:[1,2,5]}'' sample_storage
      = (sample_storage, Inl UnsupportedVersion)"
proof -
  have p: "JSON_parse_snapshot (reference_library sample_files) ''{version:2,passwords:[1,2,5]}''
     = Some (sample_snapshot\<lparr>data_version := Some 2\<rparr>)"
    by (simp add: reference_library_def sample_files_def)
  have v: "data_version (sample_snapshot\<lparr>data_version := Some 2\<rparr>) \<noteq> Some 1" by simp
  from importData_rejects_other_versions [OF p v] p v show ?thesis by blast
qed

text \<open>
  C6. The claim is that an import whose entries all carry \<open>ciphertext\<close> and \<open>iv\<close> succeeds
  whatever the session state. \<open>App.importData\<close> checks \<open>this.encryptionKey\<close> before it
  looks at any entry: with a locked session the version-1 snapshot of three encrypted
  objects is rejected and nothing is stored.
\<close>

theorem App_importData_session_counterexample:
  "JSON_parse_snapshot (reference_library sample_files) ''{version:1,passwords:[1,2,5]}'' = Some sample_snapshot
   \<and> data_version sample_snapshot = Some 1
   \<and> data_passwords sample_snapshot = Some sample_entries
   \<and> list_all already_encrypted sample_entries
   \<and> App_importData (reference_library sample_files) sample_rnd (Some ''{version:1,passwords:[1,2,5]}'')
        locked_app empty_storage
      = (showToast (Toast_error NotLoggedIn) locked_app, empty_storage)"
  by (simp add: App_importData_def reference_library_def sample_files_def sample_snapshot_def
      sample_entries_def locked_app_def encrypt_def no_fields_def already_encrypted_def
      sample_record_def)


lemma addPassword_rows:
  assumes "addPassword pw s = Inr (k, s')"
  shows "set (pw_rows s') = insert (k, snd pw) (set (pw_rows s))"
    and "fst pw = Some i \<Longrightarrow> k = i"
  using assms by (auto simp: addPassword_def Let_def set_insort_key split: if_splits option.splits)

lemma addPassword_duplicate:
  "i \<in> set (map fst (pw_rows s)) \<Longrightarrow> addPassword (Some i, ob) s = Inl ConstraintError"
  by (simp add: addPassword_def)

lemma importEach_keeps:
  assumes "importEach L key rnd n pws s c = (s1, Inr c1)"
  shows "set (pw_rows s) \<subseteq> set (pw_rows s1)
       \<and> (\<forall>j ob. (Some j, ob) \<in> set pws \<and> truthy (ciphertext ob) \<and> truthy (iv ob)
             \<longrightarrow> (j, ob) \<in> set (pw_rows s1))"
  using assms
proof (induction pws arbitrary: n s c)
  case Nil
  then show ?case by simp
next
  case (Cons pw pws)
  show ?case
  proof (cases "truthy (ciphertext (snd pw)) \<and> truthy (iv (snd pw))")
    case True
    with Cons.prems obtain k s' where add: "addPassword pw s = Inr (k, s')"
      and rest: "importEach L key rnd n pws s' (c + 1) = (s1, Inr c1)"
      by (auto split: sum.splits)
    from Cons.IH [OF rest] addPassword_rows [OF add] True show ?thesis
      by (cases pw) auto
  next
    case False
    note enc = this
    show ?thesis
    proof (cases "service (snd pw) \<noteq> Undefined")
      case True
      with enc have "importEach L key rnd n (pw # pws) s c =
          (case addPassword (None, encrypt L (passwordData (snd pw)) key (rnd n)) s of
             Inl e \<Rightarrow> (s, Inl e)
           | Inr (k, s') \<Rightarrow> importEach L key rnd (n + 1) pws s' (c + 1))"
        by auto
      with Cons.prems obtain k s' where
        add: "addPassword (None, encrypt L (passwordData (snd pw)) key (rnd n)) s = Inr (k, s')"
        and rest: "importEach L key rnd (n + 1) pws s' (c + 1) = (s1, Inr c1)"
        by (auto split: sum.splits)
      from Cons.IH [OF rest] addPassword_rows(1) [OF add] enc show ?thesis
        by (cases pw) auto
    next
      case False
      with enc have "importEach L key rnd n (pw # pws) s c = importEach L key rnd n pws s (c + 1)"
        by auto
      with Cons.prems have "importEach L key rnd n pws s (c + 1) = (s1, Inr c1)" by simp
      from Cons.IH [OF this] enc show ?thesis by (cases pw) auto
    qed
  qed
qed

lemma importEach_append:
  assumes "importEach L key rnd n before s c = (s1, Inr c1)"
  shows "\<exists>n'. importEach L key rnd n (before @ rest) s c = importEach L key rnd n' rest s1 c1"
  using assms
proof (induction before arbitrary: n s c)
  case Nil
  then show ?case by auto
next
  case (Cons pw before)
  then show ?case by (auto split: sum.splits if_splits)
qed

text \<open>
  C10. Import persists with \<open>add\<close>. When an entry with \<open>ciphertext\<close> and \<open>iv\<close> has the id
  \<open>i\<close> of an object already in the store, and the entries \<open>before\<close> it are imported
  without error (leaving the store \<open>s1\<close>), the import raises the constraint error at that
  entry and the store is left as \<open>s1\<close>: everything that was in the store and every
  encrypted entry of \<open>before\<close> is in it, and nothing of \<open>after\<close> is added.
\<close>

theorem App_importData_duplicate_id:
  assumes "JSON_parse_snapshot L text = Some data"
    and "data_version data = Some 1"
    and "data_passwords data = Some (before @ (Some i, ob) # after)"
    and "encryptionKey a = Some key"
    and "truthy (ciphertext ob)" and "truthy (iv ob)"
    and "i \<in> set (map fst (pw_rows s))"
    and "importEach L key rnd 0 before s 0 = (s1, Inr c)"
  shows "App_importData L rnd (Some text) a s = (showToast (Toast_error ConstraintError) a, s1)
       \<and> set (pw_rows s) \<subseteq> set (pw_rows s1)
       \<and> (\<forall>j ob'. (Some j, ob') \<in> set before \<and> truthy (ciphertext ob') \<and> truthy (iv ob')
             \<longrightarrow> (j, ob') \<in> set (pw_rows s1))"
proof -
  note keeps = importEach_keeps [OF assms(8)]
  from keeps assms(7) have "i \<in> set (map fst (pw_rows s1))" by auto
  then have "addPassword (Some i, ob) s1 = Inl ConstraintError" by (rule addPassword_duplicate)
  then have "importEach L key rnd n' ((Some i, ob) # after) s1 c = (s1, Inl ConstraintError)" for n'
    using assms(5,6) by simp
  with importEach_append [OF assms(8), of "(Some i, ob) # after"]
  have "importEach L key rnd 0 (before @ (Some i, ob) # after) s 0 = (s1, Inl ConstraintError)"
    by auto
  with assms(1-4) have "App_importData L rnd (Some text) a s
      = (showToast (Toast_error ConstraintError) a, s1)"
    by (simp add: App_importData_def)
  with keeps show ?thesis by simp
qed


theorem App_importData_duplicate_id_witness:
  "JSON_parse_snapshot (reference_library sample_files) ''{version:1,passwords:[8,2,9]}''
     = Some (sample_snapshot\<lparr>data_passwords := Some duplicate_entries\<rparr>)
   \<and> duplicate_entries
      = [(Some 8, encrypt (reference_library []) sample_record ''key-1'' ''iv-1'')]
        @ (Some 2, encrypt (reference_library []) sample_record ''key-1'' ''iv-2'')
        # [(Some 9, encrypt (reference_library []) sample_record ''key-1'' ''iv-3'')]
   \<and> 2 \<in> set (map fst (pw_rows sample_storage))
   \<and> snd (importEach (reference_library sample_files) ''key-1'' sample_rnd 0
             [(Some 8, encrypt (reference_library []) sample_record ''key-1'' ''iv-1'')]
             sample_storage 0) = Inr 1
   \<and> App_importData (reference_library sample_files) sample_rnd (Some ''{version:1,passwords:[8,2,9]}'')
        sample_app sample_storage
      = (showToast (Toast_error ConstraintError) sample_app,
         fst (importEach (reference_library sample_files) ''key-1'' sample_rnd 0
                [(Some 8, encrypt (reference_library []) sample_record ''key-1'' ''iv-1'')]
                sample_storage 0))
   \<and> map fst (pw_rows (fst (importEach (reference_library sample_files) ''key-1'' sample_rnd 0
                [(Some 8, encrypt (reference_library []) sample_record ''key-1'' ''iv-1'')]
                sample_storage 0))) = [1, 2, 3, 8]"
proof -
  let ?L = "reference_library sample_files"
  let ?d = "sample_snapshot\<lparr>data_passwords := Some duplicate_entries\<rparr>"
  let ?ob = "encrypt (reference_library []) sample_record ''key-1''"
  let ?before = "[(Some 8, ?ob ''iv-1'')]"
  let ?run = "importEach ?L ''key-1'' sample_rnd 0 ?before sample_storage 0"
  have p: "JSON_parse_snapshot ?L ''{version:1,passwords:[8,2,9]}'' = Some ?d"
    by (simp add: reference_library_def sample_files_def)
  have v: "data_version ?d = Some 1" by (simp add: sample_snapshot_def)
  have e: "data_passwords ?d = Some (?before @ (Some 2, ?ob ''iv-2'') # [(Some 9, ?ob ''iv-3'')])"
    by (simp add: duplicate_entries_def)
  have k: "encryptionKey sample_app = Some ''key-1''" by (simp add: sample_app_def)
  have t: "truthy (ciphertext (?ob ''iv-2''))" "truthy (iv (?ob ''iv-2''))"
    by (simp_all add: encrypt_def no_fields_def reference_library_def sample_record_def)
  have i: "2 \<in> set (map fst (pw_rows sample_storage))"
    by (simp add: sample_storage_def sample_rows_def)
  have r: "snd ?run = Inr 1" "map fst (pw_rows (fst ?run)) = [1, 2, 3, 8]"
    by (simp_all add: addPassword_def sample_storage_def sample_rows_def encrypt_def no_fields_def
        reference_library_def sample_record_def)
  then have run: "?run = (fst ?run, Inr 1)" by (metis prod.collapse)
  from App_importData_duplicate_id [OF p v e k t i run] p e i r
  show ?thesis by (simp add: duplicate_entries_def)
qed

lemma decryptable_object: "decryptable L key ep = object_decrypts L key (snd ep)"
  by (simp add: decryptable_def object_decrypts_def)

lemma encrypt_decrypts:
  assumes "library_contract L"
  shows "decrypt L (ciphertext (encrypt L (passwordData ob) key v))
           (iv (encrypt L (passwordData ob) key v)) (Some key) = Inr (passwordData ob)"
  using assms
  by (simp add: library_contract_def encrypt_def no_fields_def base64ToWordArray_def Let_def
      passwordData_def)

lemma encrypt_hides_plaintext:
  "service (encrypt L data key v) = Undefined \<and> email (encrypt L data key v) = Undefined
   \<and> username (encrypt L data key v) = Undefined \<and> password (encrypt L data key v) = Undefined
   \<and> memo (encrypt L data key v) = Undefined"
  by (simp add: encrypt_def no_fields_def Let_def)

lemma addPassword_objects:
  assumes "addPassword pw s = Inr (k, s')"
  shows "image_mset snd (mset (pw_rows s')) = add_mset (snd pw) (image_mset snd (mset (pw_rows s)))"
    and "settings s' = settings s"
    and "distinct (map fst (pw_rows s)) \<Longrightarrow> distinct (map fst (pw_rows s'))"
  using assms
  by (auto simp: addPassword_def Let_def distinct_keys_insort split: if_splits)

lemma importEach_objects:
  assumes "importEach L key rnd n pws s c = (s1, Inr c1)"
  shows "c1 = c + length pws \<and> settings s1 = settings s
       \<and> (distinct (map fst (pw_rows s)) \<longrightarrow> distinct (map fst (pw_rows s1)))
       \<and> image_mset snd (mset (pw_rows s1)) =
           image_mset snd (mset (pw_rows s)) + image_mset snd (mset (filter already_encrypted pws))
           + mset (map2 (\<lambda>pw v. encrypt L (passwordData (snd pw)) key v)
                 (filter encrypted_on_import pws)
                 (map rnd [n..<n + length (filter encrypted_on_import pws)]))"
  using assms
proof (induction pws arbitrary: n s c)
  case Nil
  then show ?case by simp
next
  case (Cons pw pws)
  show ?case
  proof (cases "already_encrypted pw")
    case True
    then have enc: "truthy (ciphertext (snd pw)) \<and> truthy (iv (snd pw))"
      and no: "\<not> encrypted_on_import pw"
      by (simp_all add: already_encrypted_def encrypted_on_import_def)
    from enc Cons.prems obtain k s' where add: "addPassword pw s = Inr (k, s')"
      and rest: "importEach L key rnd n pws s' (c + 1) = (s1, Inr c1)"
      by (auto split: sum.splits)
    from Cons.IH [OF rest] addPassword_objects [OF add] True no show ?thesis by simp
  next
    case False
    then have enc: "\<not> (truthy (ciphertext (snd pw)) \<and> truthy (iv (snd pw)))"
      by (simp add: already_encrypted_def)
    show ?thesis
    proof (cases "service (snd pw) \<noteq> Undefined")
      case True
      with False have yes: "encrypted_on_import pw" by (simp add: encrypted_on_import_def)
      from enc True have "importEach L key rnd n (pw # pws) s c =
          (case addPassword (None, encrypt L (passwordData (snd pw)) key (rnd n)) s of
             Inl e \<Rightarrow> (s, Inl e)
           | Inr (k, s') \<Rightarrow> importEach L key rnd (n + 1) pws s' (c + 1))"
        by auto
      with Cons.prems obtain k s' where
        add: "addPassword (None, encrypt L (passwordData (snd pw)) key (rnd n)) s = Inr (k, s')"
        and rest: "importEach L key rnd (n + 1) pws s' (c + 1) = (s1, Inr c1)"
        by (auto split: sum.splits)
      let ?m = "length (filter encrypted_on_import pws)"
      have vs: "[n..<Suc (n + ?m)] = n # [Suc n..<Suc (n + ?m)]"
        by (rule upt_conv_Cons) simp
      have fs: "filter encrypted_on_import (pw # pws) = pw # filter encrypted_on_import pws"
        "filter already_encrypted (pw # pws) = filter already_encrypted pws"
        using yes False by simp_all
      from Cons.IH [OF rest] addPassword_objects [OF add] show ?thesis
        unfolding fs by (simp add: vs del: upt_Suc)
    next
      case no_service: False
      with False have no: "\<not> encrypted_on_import pw" by (simp add: encrypted_on_import_def)
      from enc no_service
      have "importEach L key rnd n (pw # pws) s c = importEach L key rnd n pws s (c + 1)"
        by auto
      with Cons.prems have "importEach L key rnd n pws s (c + 1) = (s1, Inr c1)" by simp
      from Cons.IH [OF this] False no show ?thesis by simp
    qed
  qed
qed

text \<open>
  C6, as the code has it. An import of a version-1 snapshot needs an unlocked session
  whatever its entries are: with no key it raises "log in first" and the store is
  unchanged. With the key \<open>key\<close>, when the import ends without an exception:
  \<^item> every entry with a non-empty \<open>ciphertext\<close> and \<open>iv\<close> is added as it is, neither
    decrypted nor encrypted again; the reload that ends the import then deletes every
    object of the store, imported or older, that does not decrypt under the session key,
    so the entry is in the store afterwards exactly when it decrypts under that key;
  \<^item> every other entry that has a \<open>service\<close> is stored as a fresh encryption of its
    record under the session key: an object that decrypts under the session key to the
    record of the entry's five fields and carries none of them in the clear;
  \<^item> an entry with neither is not stored;
  and the store holds nothing else. The number shown as imported is the number of
  entries of the snapshot, stored or not. The store's keys are distinct, and the library
  meets its contract.
\<close>

theorem App_importData_session:
  assumes "library_contract L"
    and "JSON_parse_snapshot L text = Some data"
    and "data_version data = Some 1"
    and "data_passwords data = Some pws"
    and "distinct (map fst (pw_rows s))"
    and "App_importData L rnd (Some text) a s = (a', s')"
    and "plain = filter encrypted_on_import pws"
    and "fresh = map2 (\<lambda>pw v. encrypt L (passwordData (snd pw)) key v) plain
                   (map rnd [0..<length plain])"
  shows "(encryptionKey a = None \<longrightarrow> a' = showToast (Toast_error NotLoggedIn) a \<and> s' = s)
       \<and> (encryptionKey a = Some key \<and> import_succeeded a' \<longrightarrow>
            image_mset snd (mset (pw_rows s')) =
              filter_mset (object_decrypts L (Some key))
                (image_mset snd (mset (pw_rows s))
                 + image_mset snd (mset (filter already_encrypted pws)))
              + mset fresh
          \<and> (\<forall>i ob. (Some i, ob) \<in> set pws \<and> already_encrypted (Some i, ob) \<longrightarrow>
                ((i, ob) \<in> set (pw_rows s')) = object_decrypts L (Some key) ob)
          \<and> list_all2 (\<lambda>pw ob. decrypt L (ciphertext ob) (iv ob) (Some key)
                                   = Inr (passwordData (snd pw))
                                 \<and> service ob = Undefined \<and> email ob = Undefined
                                 \<and> username ob = Undefined \<and> password ob = Undefined
                                 \<and> memo ob = Undefined) plain fresh
          \<and> last (toasts a') = Toast_imported (length pws)
          \<and> settings s' = settings s)"
proof (intro conjI impI)
  assume "encryptionKey a = None"
  with assms(2-4,6) show "a' = showToast (Toast_error NotLoggedIn) a" and "s' = s"
    by (auto simp: App_importData_def)
next
  assume "encryptionKey a = Some key \<and> import_succeeded a'"
  then have key: "encryptionKey a = Some key" and ok: "import_succeeded a'" by simp_all
  obtain s1 r where run: "importEach L key rnd 0 pws s 0 = (s1, r)" by (cases "importEach L key rnd 0 pws s 0")
  have "\<exists>c1. r = Inr c1"
  proof (cases r)
    case (Inl e)
    with run key assms(2-4,6) have "a' = showToast (Toast_error e) a"
      by (auto simp: App_importData_def)
    with ok show ?thesis by (simp add: import_succeeded_def showToast_def)
  next
    case (Inr c1)
    then show ?thesis by simp
  qed
  then obtain c1 where r: "r = Inr c1" by blast
  with run key assms(2-4,6) have s': "s' = snd (loadPasswords L a s1)"
    and a': "a' = showToast (Toast_imported c1) (fst (loadPasswords L a s1))"
    by (auto simp: App_importData_def split: prod.splits)
  note obj = importEach_objects [OF run [unfolded r]]
  then have d1: "distinct (map fst (pw_rows s1))" using assms(5) by simp
  note eff = loadPasswords_effect [OF d1, of L a]
  have "decryptable L (Some key) = (\<lambda>ep. object_decrypts L (Some key) (snd ep))"
    by (rule ext) (simp add: decryptable_object)
  then have rows: "pw_rows s' = filter (\<lambda>ep. object_decrypts L (Some key) (snd ep)) (pw_rows s1)"
    by (simp add: s' eff(2) key)
  have fresh_ok: "object_decrypts L (Some key) ob" if "ob \<in> set fresh" for ob
  proof -
    from that obtain pw :: entry and v where "ob = encrypt L (passwordData (snd pw)) key v"
      unfolding assms(8) by (auto simp: in_set_zip)
    then show ?thesis by (simp add: object_decrypts_def encrypt_decrypts [OF assms(1)])
  qed
  have "image_mset snd (mset (pw_rows s')) =
      filter_mset (object_decrypts L (Some key)) (image_mset snd (mset (pw_rows s1)))"
    by (simp add: rows filter_mset_image_mset flip: mset_filter)
  also have "image_mset snd (mset (pw_rows s1)) =
      image_mset snd (mset (pw_rows s)) + image_mset snd (mset (filter already_encrypted pws))
      + mset fresh"
    using obj by (simp add: assms(7,8))
  also have "filter_mset (object_decrypts L (Some key)) (\<dots>) =
      filter_mset (object_decrypts L (Some key))
        (image_mset snd (mset (pw_rows s)) + image_mset snd (mset (filter already_encrypted pws)))
      + mset fresh"
    using fresh_ok by (simp add: filter_mset_eq_conv)
  finally show "image_mset snd (mset (pw_rows s')) =
      filter_mset (object_decrypts L (Some key))
        (image_mset snd (mset (pw_rows s)) + image_mset snd (mset (filter already_encrypted pws)))
      + mset fresh" .
  show "\<forall>i ob. (Some i, ob) \<in> set pws \<and> already_encrypted (Some i, ob) \<longrightarrow>
          ((i, ob) \<in> set (pw_rows s')) = object_decrypts L (Some key) ob"
    using importEach_keeps [OF run [unfolded r]]
    by (auto simp: rows already_encrypted_def)
  show "list_all2 (\<lambda>pw ob. decrypt L (ciphertext ob) (iv ob) (Some key)
                                   = Inr (passwordData (snd pw))
                                 \<and> service ob = Undefined \<and> email ob = Undefined
                                 \<and> username ob = Undefined \<and> password ob = Undefined
                                 \<and> memo ob = Undefined) plain fresh"
    unfolding assms(8)
    by (simp add: list_all2_conv_all_nth encrypt_decrypts [OF assms(1)] encrypt_hides_plaintext)
  show "last (toasts a') = Toast_imported (length pws)"
    using obj by (simp add: a' showToast_def)
  show "settings s' = settings s"
    using obj by (simp add: s' eff(3))
qed

theorem App_importData_session_witness:
  "library_contract (reference_library sample_files)
   \<and> JSON_parse_snapshot (reference_library sample_files) ''{version:1,passwords:[7,8,Shop,dave]}''
       = Some (sample_snapshot\<lparr>data_passwords := Some mixed_entries\<rparr>)
   \<and> data_version (sample_snapshot\<lparr>data_passwords := Some mixed_entries\<rparr>) = Some 1
   \<and> data_passwords (sample_snapshot\<lparr>data_passwords := Some mixed_entries\<rparr>) = Some mixed_entries
   \<and> distinct (map fst (pw_rows empty_storage))
   \<and> encryptionKey locked_app = None
   \<and> App_importData (reference_library sample_files) sample_rnd
        (Some ''{version:1,passwords:[7,8,Shop,dave]}'') locked_app empty_storage
      = (showToast (Toast_error NotLoggedIn) locked_app, empty_storage)
   \<and> encryptionKey sample_app = Some ''key-1''
   \<and> import_succeeded (fst (App_importData (reference_library sample_files) sample_rnd
        (Some ''{version:1,passwords:[7,8,Shop,dave]}'') sample_app empty_storage))
   \<and> (7, encrypt (reference_library []) sample_record ''key-1'' ''iv-1'')
        \<in> set (pw_rows (snd (App_importData (reference_library sample_files) sample_rnd
             (Some ''{version:1,passwords:[7,8,Shop,dave]}'') sample_app empty_storage)))
   \<and> (8, no_fields\<lparr>ciphertext := Str ''garbage'', iv := Str ''iv-2''\<rparr>)
        \<notin> set (pw_rows (snd (App_importData (reference_library sample_files) sample_rnd
             (Some ''{version:1,passwords:[7,8,Shop,dave]}'') sample_app empty_storage)))
   \<and> map fst (pw_rows (snd (App_importData (reference_library sample_files) sample_rnd
        (Some ''{version:1,passwords:[7,8,Shop,dave]}'') sample_app empty_storage))) = [7, 9]
   \<and> passwords (fst (App_importData (reference_library sample_files) sample_rnd
        (Some ''{version:1,passwords:[7,8,Shop,dave]}'') sample_app empty_storage))
      = [(7, sample_record), (9, PasswordData ''Shop'' [] ''carol'' ''pw'' [])]
   \<and> toasts (fst (App_importData (reference_library sample_files) sample_rnd
        (Some ''{version:1,passwords:[7,8,Shop,dave]}'') sample_app empty_storage))
      = [Toast_corrupt_deleted 1, Toast_imported 4]"
proof -
  let ?L = "reference_library sample_files"
  let ?text = "''{version:1,passwords:[7,8,Shop,dave]}''"
  let ?d = "sample_snapshot\<lparr>data_passwords := Some mixed_entries\<rparr>"
  let ?ob7 = "encrypt (reference_library []) sample_record ''key-1'' ''iv-1''"
  let ?ob8 = "no_fields\<lparr>ciphertext := Str ''garbage'', iv := Str ''iv-2''\<rparr>"
  let ?locked = "App_importData ?L sample_rnd (Some ?text) locked_app empty_storage"
  let ?H = "App_importData ?L sample_rnd (Some ?text) sample_app empty_storage"
  have c: "library_contract ?L" by (rule reference_library_contract)
  have p: "JSON_parse_snapshot ?L ?text = Some ?d"
    by (simp add: reference_library_def sample_files_def)
  have v: "data_version ?d = Some 1" by (simp add: sample_snapshot_def)
  have e: "data_passwords ?d = Some mixed_entries" by simp
  have d: "distinct (map fst (pw_rows empty_storage))" by (simp add: empty_storage_def)
  have k: "encryptionKey locked_app = None" "encryptionKey sample_app = Some ''key-1''"
    by (simp_all add: locked_app_def sample_app_def)
  have ok: "import_succeeded (fst ?H)" by code_simp
  have ev: "map fst (pw_rows (snd ?H)) = [7, 9]"
    "passwords (fst ?H) = [(7, sample_record), (9, PasswordData ''Shop'' [] ''carol'' ''pw'' [])]"
    "toasts (fst ?H) = [Toast_corrupt_deleted 1, Toast_imported 4]"
    by code_simp+
  have m: "(Some 7, ?ob7) \<in> set mixed_entries" "(Some 8, ?ob8) \<in> set mixed_entries"
    by (simp_all add: mixed_entries_def)
  have enc: "already_encrypted (Some 7, ?ob7)" "already_encrypted (Some 8, ?ob8)"
    "object_decrypts ?L (Some ''key-1'') ?ob7" "\<not> object_decrypts ?L (Some ''key-1'') ?ob8"
    by code_simp+
  from App_importData_session [OF c p v e d surjective_pairing refl refl,
      where rnd = sample_rnd and a = locked_app] k(1)
  have locked: "?locked = (showToast (Toast_error NotLoggedIn) locked_app, empty_storage)"
    by (simp add: prod_eq_iff)
  from App_importData_session [OF c p v e d surjective_pairing refl refl,
      where rnd = sample_rnd and a = sample_app and key = "''key-1''"] k(2) ok
  have "\<forall>i ob. (Some i, ob) \<in> set mixed_entries \<and> already_encrypted (Some i, ob) \<longrightarrow>
          ((i, ob) \<in> set (pw_rows (snd ?H))) = object_decrypts ?L (Some ''key-1'') ob"
    by blast
  with m enc have "(7, ?ob7) \<in> set (pw_rows (snd ?H))" "(8, ?ob8) \<notin> set (pw_rows (snd ?H))"
    by blast+
  with c p v e d k ok ev locked show ?thesis by simp
qed

section \<open>App.handleSyncPull\<close>

lemma addPassword_step:
  assumes "addPassword pw s = Inr (k, s')"
  shows "pw_rows s' = insort_key fst (k, snd pw) (pw_rows s)"
    and "settings s' = settings s"
    and "k \<notin> set (map fst (pw_rows s))"
  using assms by (auto simp: addPassword_def Let_def split: if_splits)

lemma addPasswords_success:
  assumes "addPasswords pws s = (s', Inr u)"
  shows "mset (map snd (pw_rows s')) = mset (map snd (pw_rows s)) + mset (map snd pws)
       \<and> settings s' = settings s
       \<and> set (pw_rows s) \<subseteq> set (pw_rows s')
       \<and> (\<forall>i ob. (Some i, ob) \<in> set pws \<longrightarrow> (i, ob) \<in> set (pw_rows s'))"
  using assms
proof (induction pws arbitrary: s)
  case Nil
  then show ?case by simp
next
  case (Cons pw pws)
  from Cons.prems obtain k s1 where add: "addPassword pw s = Inr (k, s1)"
    and rest: "addPasswords pws s1 = (s', Inr u)"
    by (auto split: sum.splits)
  note step = addPassword_step [OF add] addPassword_rows [OF add]
  from Cons.IH [OF rest] step show ?case
    by (cases pw) (auto simp: set_insort_key)
qed

lemma saveSetting_frame [simp]:
  "pw_rows (saveSetting key val s) = pw_rows s" "pw_keygen (saveSetting key val s) = pw_keygen s"
  by (simp_all add: saveSetting_def)

lemma restoreSettings_frame [simp]:
  "pw_rows (restoreSettings data s) = pw_rows s"
  by (simp add: restoreSettings_def restoreSetting_def)

lemma handleSyncPull_success:
  assumes "pull g r = Inr (Some (content, sha))"
    and "JSON_parse_snapshot L content = Some data"
    and "data_version data = Some 1"
    and "data_passwords data = Some pws"
    and "handleSyncPull L a g s r = (a', g', s')"
    and "pull_succeeded a'"
  shows "addPasswords pws (snd (saveConfig (token g) (REPO_OWNER g) (REPO_NAME g)
            (restoreSettings data (clearAll s)))) = (s', Inr ())
       \<and> g' = g
       \<and> a' = showToast (Toast_synced (length pws))
               ((showToast Toast_pulling a)\<lparr>encryptionKey := None, encryptionSalt := Null\<rparr>)"
  using assms
  by (auto simp: handleSyncPull_def Let_def saveConfig_def pull_succeeded_def showToast_def
      split: sum.splits prod.splits)

lemma addPasswords_distinct_ids:
  assumes "distinct (map fst pws)" and "None \<notin> fst ` set pws"
    and "\<forall>i. Some i \<in> fst ` set pws \<longrightarrow> i \<notin> set (map fst (pw_rows s))"
  shows "\<exists>s'. addPasswords pws s = (s', Inr ())"
  using assms
proof (induction pws arbitrary: s)
  case Nil
  then show ?case by simp
next
  case (Cons pw pws)
  from Cons.prems(2) obtain i ob where pw: "pw = (Some i, ob)" by (cases pw) force
  with Cons.prems(3) have fresh: "i \<notin> set (map fst (pw_rows s))" by simp
  then obtain s1 where add: "addPassword pw s = Inr (i, s1)"
    and keys: "set (map fst (pw_rows s1)) = insert i (set (map fst (pw_rows s)))"
    by (auto simp: addPassword_def pw set_insort_key)
  have "\<forall>j. Some j \<in> fst ` set pws \<longrightarrow> j \<notin> set (map fst (pw_rows s1))"
    using Cons.prems(1,3) keys pw by (auto simp: image_iff)
  with Cons.IH [of s1] Cons.prems(1,2) obtain s' where "addPasswords pws s1 = (s', Inr ())"
    by auto
  with add show ?case by simp
qed

lemma handleSyncPull_succeeds:
  assumes "pull g r = Inr (Some (content, sha))"
    and "JSON_parse_snapshot L content = Some data"
    and "data_version data = Some 1"
    and "data_passwords data = Some pws"
    and "distinct (map fst pws)" and "None \<notin> fst ` set pws"
  shows "pull_succeeded (fst (handleSyncPull L a g s r))"
proof -
  let ?s3 = "snd (saveConfig (token g) (REPO_OWNER g) (REPO_NAME g) (restoreSettings data (clearAll s)))"
  have "pw_rows ?s3 = []" by (simp add: saveConfig_def clearAll_def)
  with addPasswords_distinct_ids [OF assms(5,6), of ?s3]
  obtain s' where "addPasswords pws ?s3 = (s', Inr ())" by auto
  with assms(1-4) show ?thesis
    by (simp add: handleSyncPull_def Let_def saveConfig_def pull_succeeded_def showToast_def)
qed

lemma sample_pull:
  "pull sample_sync sample_remote = Inr (Some (''{version:1,passwords:[1,2,5]}'', 1))"
  "JSON_parse_snapshot (reference_library sample_files) ''{version:1,passwords:[1,2,5]}''
     = Some sample_snapshot"
  "data_version sample_snapshot = Some 1"
  "data_passwords sample_snapshot = Some sample_entries"
  "distinct (map fst sample_entries)" "None \<notin> fst ` set sample_entries"
  by (simp_all add: pull_def remote_GET_def configured_def sample_sync_def sample_remote_def
      reference_library_def sample_files_def sample_snapshot_def sample_entries_def)

text \<open>
  C4. For every remote snapshot of version 1 with a list of objects, when the pull
  succeeds the store holds exactly the snapshot's objects (each object once, under its own
  id when it has one, and nothing that was stored before), every setting other than the
  sync configuration is gone except the snapshot's \<open>masterHash\<close>, \<open>masterSalt\<close> and
  \<open>encryptionSalt\<close> (each stored when the snapshot has a non-empty value for it), and the
  session has neither key nor encryption salt.
\<close>

theorem handleSyncPull_replaces_vault:
  assumes "pull g r = Inr (Some (content, sha))"
    and "JSON_parse_snapshot L content = Some data"
    and "data_version data = Some 1"
    and "data_passwords data = Some pws"
    and "handleSyncPull L a g s r = (a', g', s')"
    and "pull_succeeded a'"
  shows "mset (map snd (pw_rows s')) = mset (map snd pws)
       \<and> length (pw_rows s') = length pws
       \<and> (\<forall>i ob. (Some i, ob) \<in> set pws \<longrightarrow> (i, ob) \<in> set (pw_rows s'))
       \<and> (\<forall>key. key \<notin> {''githubToken'', ''githubRepoOwner'', ''githubRepoName''} \<longrightarrow>
            settings s' key =
              (if key = ''masterHash'' \<and> truthy (data_masterHash data) then Some (data_masterHash data)
               else if key = ''masterSalt'' \<and> truthy (data_masterSalt data) then Some (data_masterSalt data)
               else if key = ''encryptionSalt'' \<and> truthy (data_encryptionSalt data)
                    then Some (data_encryptionSalt data)
               else None))
       \<and> encryptionKey a' = None \<and> encryptionSalt a' = Null"
proof -
  let ?s3 = "snd (saveConfig (token g) (REPO_OWNER g) (REPO_NAME g) (restoreSettings data (clearAll s)))"
  note ok = handleSyncPull_success [OF assms]
  then have add: "addPasswords pws ?s3 = (s', Inr ())" by simp
  have empty: "pw_rows ?s3 = []" by (simp add: saveConfig_def clearAll_def)
  from addPasswords_success [OF add] empty
  have rows: "mset (map snd (pw_rows s')) = mset (map snd pws)"
    and mem: "\<forall>i ob. (Some i, ob) \<in> set pws \<longrightarrow> (i, ob) \<in> set (pw_rows s')"
    and set: "settings s' = settings ?s3"
    by simp_all
  from rows have len: "length (pw_rows s') = length pws"
    using mset_eq_length [of "map snd (pw_rows s')" "map snd pws"] by simp
  have "settings ?s3 key =
      (if key = ''masterHash'' \<and> truthy (data_masterHash data) then Some (data_masterHash data)
       else if key = ''masterSalt'' \<and> truthy (data_masterSalt data) then Some (data_masterSalt data)
       else if key = ''encryptionSalt'' \<and> truthy (data_encryptionSalt data)
            then Some (data_encryptionSalt data)
       else None)"
    if "key \<notin> {''githubToken'', ''githubRepoOwner'', ''githubRepoName''}" for key
    using that
    by (simp add: saveConfig_def restoreSettings_def restoreSetting_def saveSetting_def clearAll_def)
  with rows len mem set ok show ?thesis by (simp add: showToast_def)
qed

theorem handleSyncPull_replaces_vault_witness:
  "pull sample_sync sample_remote = Inr (Some (''{version:1,passwords:[1,2,5]}'', 1))
   \<and> JSON_parse_snapshot (reference_library sample_files) ''{version:1,passwords:[1,2,5]}''
       = Some sample_snapshot
   \<and> data_version sample_snapshot = Some 1
   \<and> data_passwords sample_snapshot = Some sample_entries
   \<and> pull_succeeded (fst (handleSyncPull (reference_library sample_files) sample_app sample_sync
         sample_storage sample_remote))
   \<and> mset (map snd (pw_rows (snd (snd (handleSyncPull (reference_library sample_files) sample_app
         sample_sync sample_storage sample_remote))))) = mset (map snd sample_entries)
   \<and> length (pw_rows (snd (snd (handleSyncPull (reference_library sample_files) sample_app
         sample_sync sample_storage sample_remote)))) = 3
   \<and> settings (snd (snd (handleSyncPull (reference_library sample_files) sample_app
         sample_sync sample_storage sample_remote))) ''masterHash'' = Some (Str ''cmVtb3Rl'')
   \<and> encryptionKey (fst (handleSyncPull (reference_library sample_files) sample_app sample_sync
         sample_storage sample_remote)) = None
   \<and> encryptionSalt (fst (handleSyncPull (reference_library sample_files) sample_app sample_sync
         sample_storage sample_remote)) = Null"
proof -
  let ?H = "handleSyncPull (reference_library sample_files) sample_app sample_sync
         sample_storage sample_remote"
  have ok: "pull_succeeded (fst ?H)"
    by (rule handleSyncPull_succeeds [OF sample_pull])
  have H: "?H = (fst ?H, fst (snd ?H), snd (snd ?H))" by simp
  have l: "length sample_entries = 3" "data_masterHash sample_snapshot = Str ''cmVtb3Rl''"
    by (simp_all add: sample_entries_def sample_snapshot_def)
  from handleSyncPull_replaces_vault [OF sample_pull(1-4) H ok] ok sample_pull l
  show ?thesis by simp
qed

text \<open>
  C9. After a successful pull the settings \<open>githubToken\<close>, \<open>githubRepoOwner\<close> and
  \<open>githubRepoName\<close> hold the values \<open>GitHubSync\<close> had in memory before the pull, which are
  the values stored before the pull whenever the in-memory configuration is the one
  \<open>init\<close> reads from the store; \<open>masterHash\<close>, \<open>masterSalt\<close> and \<open>encryptionSalt\<close> hold
  the snapshot's values (and are absent when the snapshot has no non-empty value).
\<close>

theorem handleSyncPull_keeps_sync_config:
  assumes "pull g r = Inr (Some (content, sha))"
    and "JSON_parse_snapshot L content = Some data"
    and "data_version data = Some 1"
    and "data_passwords data = Some pws"
    and "handleSyncPull L a g s r = (a', g', s')"
    and "pull_succeeded a'"
  shows "getSetting ''githubToken'' s' = token g
       \<and> getSetting ''githubRepoOwner'' s' = REPO_OWNER g
       \<and> getSetting ''githubRepoName'' s' = REPO_NAME g
       \<and> g' = g
       \<and> (fst (init s) = g \<longrightarrow>
            getSetting ''githubToken'' s' = getSetting ''githubToken'' s
          \<and> getSetting ''githubRepoOwner'' s' = getSetting ''githubRepoOwner'' s
          \<and> getSetting ''githubRepoName'' s' = getSetting ''githubRepoName'' s)
       \<and> getSetting ''masterHash'' s'
            = (if truthy (data_masterHash data) then data_masterHash data else Undefined)
       \<and> getSetting ''masterSalt'' s'
            = (if truthy (data_masterSalt data) then data_masterSalt data else Undefined)
       \<and> getSetting ''encryptionSalt'' s'
            = (if truthy (data_encryptionSalt data) then data_encryptionSalt data else Undefined)"
proof -
  let ?s3 = "snd (saveConfig (token g) (REPO_OWNER g) (REPO_NAME g) (restoreSettings data (clearAll s)))"
  note ok = handleSyncPull_success [OF assms]
  then have add: "addPasswords pws ?s3 = (s', Inr ())" by simp
  from addPasswords_success [OF add] have set: "settings s' = settings ?s3" by simp
  have g: "fst (init s) = g \<Longrightarrow> token g = getSetting ''githubToken'' s
      \<and> REPO_OWNER g = getSetting ''githubRepoOwner'' s \<and> REPO_NAME g = getSetting ''githubRepoName'' s"
    by (auto simp: init_def Let_def)
  show ?thesis
    using ok g
    by (simp add: getSetting_def set saveConfig_def restoreSettings_def restoreSetting_def
        saveSetting_def clearAll_def)
qed

theorem handleSyncPull_keeps_sync_config_witness:
  "pull sample_sync sample_remote = Inr (Some (''{version:1,passwords:[1,2,5]}'', 1))
   \<and> JSON_parse_snapshot (reference_library sample_files) ''{version:1,passwords:[1,2,5]}''
       = Some sample_snapshot
   \<and> data_version sample_snapshot = Some 1
   \<and> data_passwords sample_snapshot = Some sample_entries
   \<and> pull_succeeded (fst (handleSyncPull (reference_library sample_files) sample_app sample_sync
         sample_storage sample_remote))
   \<and> fst (init sample_storage) = sample_sync
   \<and> getSetting ''githubToken'' (snd (snd (handleSyncPull (reference_library sample_files)
         sample_app sample_sync sample_storage sample_remote))) = Str ''ghp_token''
   \<and> getSetting ''githubRepoOwner'' (snd (snd (handleSyncPull (reference_library sample_files)
         sample_app sample_sync sample_storage sample_remote))) = Str ''alice''
   \<and> getSetting ''githubRepoName'' (snd (snd (handleSyncPull (reference_library sample_files)
         sample_app sample_sync sample_storage sample_remote))) = Str ''vault''
   \<and> getSetting ''masterHash'' sample_storage = Str ''aGFzaA==''
   \<and> getSetting ''masterHash'' (snd (snd (handleSyncPull (reference_library sample_files)
         sample_app sample_sync sample_storage sample_remote))) = Str ''cmVtb3Rl''"
proof -
  let ?H = "handleSyncPull (reference_library sample_files) sample_app sample_sync
         sample_storage sample_remote"
  have ok: "pull_succeeded (fst ?H)"
    by (rule handleSyncPull_succeeds [OF sample_pull])
  have H: "?H = (fst ?H, fst (snd ?H), snd (snd ?H))" by simp
  have i: "fst (init sample_storage) = sample_sync"
    "getSetting ''masterHash'' sample_storage = Str ''aGFzaA==''"
    by (simp_all add: init_def sample_storage_def sample_sync_def getSetting_def Let_def)
  have v: "token sample_sync = Str ''ghp_token''" "REPO_OWNER sample_sync = Str ''alice''"
    "REPO_NAME sample_sync = Str ''vault''" "data_masterHash sample_snapshot = Str ''cmVtb3Rl''"
    by (simp_all add: sample_sync_def sample_snapshot_def)
  from handleSyncPull_keeps_sync_config [OF sample_pull(1-4) H ok] ok sample_pull i v
  show ?thesis by simp
qed

section \<open>GitHubSync.push\<close>

text \<open>
  \<open>push\<close> sends the token that its own preceding \<open>pull\<close> returned. When that token is
  still the file's token at the write and the remote is reachable, the write is accepted:
  the file is replaced and a new token is issued.
\<close>

lemma push_current_token_accepted:
  assumes "configured g" and "pull g r = Inr (Some (seen, sha))"
    and "remote_fault (others r) = None" and "remote_file (others r) = Some (current, sha)"
  shows "push g content others r =
           (Inr (issued (others r) + 1),
            (others r)\<lparr>remote_file := Some (content, issued (others r) + 1),
                        issued := issued (others r) + 1\<rparr>)"
  using assms by (simp add: push_def remote_PUT_def remote_write_def Let_def)

text \<open>
  C7. A push is checked against the version token obtained from the pull that precedes
  the write, which is the \<open>pull\<close> that \<open>push\<close> performs itself: whenever the token so
  obtained is stale at the write, because the file then carries another token or is gone,
  the push ends in an exception and the remote is left exactly as the other writers made
  it, so the newer version is not overwritten. When the remote is reachable the exception
  is the remote's conflict answer.
\<close>

theorem push_stale_token_rejected:
  assumes "configured g" and "pull g r = Inr (Some (seen, sha))"
    and "map_option snd (remote_file (others r)) \<noteq> Some sha"
  shows "isl (fst (push g content others r))
       \<and> snd (push g content others r) = others r
       \<and> (remote_fault (others r) = None \<longrightarrow>
            push g content others r = (Inl (SyncFailure (Some ''conflict'')), others r))"
  using assms
  by (auto simp: push_def remote_PUT_def Let_def split: option.splits fault.splits)

theorem push_stale_token_rejected_witness:
  "configured sample_sync
   \<and> pull sample_sync remote_A = Inr (Some (''A'', 1))
   \<and> other_device remote_A = remote_B
   \<and> map_option snd (remote_file (other_device remote_A)) \<noteq> Some 1
   \<and> remote_fault (other_device remote_A) = None
   \<and> isl (fst (push sample_sync ''C'' other_device remote_A))
   \<and> push sample_sync ''C'' other_device remote_A = (Inl (SyncFailure (Some ''conflict'')), remote_B)
   \<and> remote_file remote_B = Some (''B'', 2)"
proof -
  have c: "configured sample_sync" by (simp add: configured_def sample_sync_def)
  have p: "pull sample_sync remote_A = Inr (Some (''A'', 1))"
    by (simp add: pull_def remote_GET_def configured_def sample_sync_def remote_A_def)
  have o: "other_device remote_A = remote_B"
    by (simp add: other_device_def remote_PUT_def remote_write_def remote_A_def remote_B_def)
  have b: "remote_fault remote_B = None" "remote_file remote_B = Some (''B'', 2)"
    by (simp_all add: remote_B_def)
  have st: "map_option snd (remote_file (other_device remote_A)) \<noteq> Some 1"
    by (simp add: o b)
  from push_stale_token_rejected [where others = other_device and content = "''C''", OF c p st]
    c p o b st
  show ?thesis by simp
qed

end
